theory Spec2Isabelle
  imports Complex_Main "HOL-Library.Product_Lexorder"
begin

section \<open>Azure orphan detector: data model\<close>

text \<open>
  The development embeds the scoring functions of the resource analyzers
  (\<^verbatim>\<open>analyzers/disk_analyzer.py\<close>, \<^verbatim>\<open>analyzers/public_ip_analyzer.py\<close>,
  \<^verbatim>\<open>analyzers/storage_analyzer.py\<close>) and the orchestration of
  \<^verbatim>\<open>core/detector.py\<close>. Python floats are modelled as real numbers: every
  comparison and sum is the exact one, rounding and NaN are outside the model.
  Python's unbounded integers are \<open>int\<close>. Points in time are integers counting microseconds,
  the resolution of \<^verbatim>\<open>datetime\<close>; all datetimes are taken to be timezone-aware.
\<close>

datatype SeverityLevel = CRITICAL | HIGH | MEDIUM | LOW | INFO

text \<open>The string value of each enum member (\<^verbatim>\<open>core/models.py\<close>, lines 23 to 29).\<close>

fun severity_value :: "SeverityLevel \<Rightarrow> string" where
  "severity_value CRITICAL = ''critical''"
| "severity_value HIGH = ''high''"
| "severity_value MEDIUM = ''medium''"
| "severity_value LOW = ''low''"
| "severity_value INFO = ''info''"

datatype AzureResourceType = DISK | SNAPSHOT | PUBLIC_IP | STORAGE_ACCOUNT

datatype OrphanageReason = UNATTACHED | UNUSED | EXPIRED

record UsageAnalysis =
  has_recent_activity :: bool
  activity_score :: real

record BackupPolicyAnalysis =
  is_automated_backup :: bool
  has_backup_policy :: bool
  follows_backup_naming :: bool
  backup_retention_days :: "int option"
  is_part_of_backup_job :: bool
  risk_level :: string

record CostAnalysis =
  current_monthly_cost :: real
  projected_annual_cost :: real

record ScanConfiguration =
  subscription_ids :: "string list"
  excluded_resource_groups :: "string list"
  excluded_tags :: "(string \<times> string list) list"
  cost_threshold_critical :: real
  cost_threshold_high :: real
  cost_threshold_medium :: real
  confidence_threshold :: real
  include_low_confidence :: bool
  max_age_days :: int
  parallel_workers :: int

text \<open>The defaults of the dataclass \<^verbatim>\<open>ScanConfiguration\<close>.\<close>

definition default_configuration :: ScanConfiguration where
  "default_configuration =
     \<lparr>subscription_ids = [], excluded_resource_groups = [], excluded_tags = [],
      cost_threshold_critical = 100, cost_threshold_high = 50, cost_threshold_medium = 10,
      confidence_threshold = 0.7, include_low_confidence = False,
      max_age_days = 90, parallel_workers = 4\<rparr>"

definition default_backup_analysis :: BackupPolicyAnalysis where
  "default_backup_analysis =
     \<lparr>is_automated_backup = False, has_backup_policy = False, follows_backup_naming = False,
      backup_retention_days = None, is_part_of_backup_job = False, risk_level = ''unknown''\<rparr>"

record EnhancedOrphanedResource =
  resource_name :: string
  resource_type :: AzureResourceType
  resource_group :: string
  subscription_id :: string
  subscription_name :: "string option"
  cost_analysis :: CostAnalysis
  usage_analysis :: "UsageAnalysis option"
  security_risks :: "string list"
  network_exposure :: string
  backup_analysis :: "BackupPolicyAnalysis option"
  severity :: SeverityLevel
  orphanage_reason :: OrphanageReason
  confidence_score :: real
  tags :: "(string \<times> string) list"
  cleanup_priority :: int
  business_owner :: "string option"
  project_code :: "string option"
  environment :: "string option"

section \<open>Python string operations\<close>

text \<open>\<^verbatim>\<open>str.lower\<close> on ASCII letters; other characters are left as they are.\<close>

definition py_lower_char :: "char \<Rightarrow> char" where
  "py_lower_char c =
     (let n = (of_char c :: nat) in if 65 \<le> n \<and> n \<le> 90 then char_of (n + 32) else c)"

definition py_lower :: "string \<Rightarrow> string" where
  "py_lower s = map py_lower_char s"

fun starts_with :: "string \<Rightarrow> string \<Rightarrow> bool" where
  "starts_with [] s = True"
| "starts_with (p # ps) [] = False"
| "starts_with (p # ps) (c # cs) = (p = c \<and> starts_with ps cs)"

text \<open>The substring test \<^verbatim>\<open>needle in haystack\<close>.\<close>

fun py_in_str :: "string \<Rightarrow> string \<Rightarrow> bool" where
  "py_in_str needle [] = (needle = [])"
| "py_in_str needle (c # cs) = (starts_with needle (c # cs) \<or> py_in_str needle cs)"

text \<open>The comparison \<^verbatim>\<open>a < b\<close> of two strings: lexicographic on the code points.\<close>

fun py_str_less :: "string \<Rightarrow> string \<Rightarrow> bool" where
  "py_str_less [] [] = False"
| "py_str_less [] (y # ys) = True"
| "py_str_less (x # xs) [] = False"
| "py_str_less (x # xs) (y # ys) =
     (if x = y then py_str_less xs ys else (of_char x :: nat) < of_char y)"

text \<open>
  \<^verbatim>\<open>str(d)\<close> of a dictionary of strings, given as the list of its items in insertion
  order. Keys and values are taken to be free of quotes, backslashes and unprintable
  characters, which \<^verbatim>\<open>repr\<close> would escape.
\<close>

fun py_str_items :: "(string \<times> string) list \<Rightarrow> string" where
  "py_str_items [] = []"
| "py_str_items [(k, v)] = [CHR 0x27] @ k @ [CHR 0x27] @ '': '' @ [CHR 0x27] @ v @ [CHR 0x27]"
| "py_str_items ((k, v) # kvs) =
     [CHR 0x27] @ k @ [CHR 0x27] @ '': '' @ [CHR 0x27] @ v @ [CHR 0x27] @ '', '' @ py_str_items kvs"

definition py_str_dict :: "(string \<times> string) list \<Rightarrow> string" where
  "py_str_dict d = ''{'' @ py_str_items d @ ''}''"

text \<open>\<^verbatim>\<open>any(tag.lower() in str(resource.tags).lower() for tag in words)\<close>.\<close>

definition tags_mention :: "string list \<Rightarrow> (string \<times> string) list \<Rightarrow> bool" where
  "tags_mention words d = list_ex (\<lambda>tag. py_in_str (py_lower tag) (py_lower (py_str_dict d))) words"

text \<open>\<^verbatim>\<open>(now - created).days\<close>: whole days of a time difference, rounded down.\<close>

definition microseconds_per_day :: int where
  "microseconds_per_day = 86400000000"

definition timedelta_days :: "int \<Rightarrow> int \<Rightarrow> int" where
  "timedelta_days now created = (now - created) div microseconds_per_day"

section \<open>Scoring of disks and snapshots\<close>

text \<open>
  What the scoring functions read of a disk or snapshot object of the compute client,
  together with the answers of the collaborators for it. \<open>cr_enhanced_cost\<close> is the
  result of \<^verbatim>\<open>calculate_enhanced_cost\<close>, \<open>cr_usage\<close> of \<^verbatim>\<open>analyze_resource_usage\<close>,
  \<open>cr_backup\<close> of \<^verbatim>\<open>analyze_backup_policies\<close>, \<open>cr_basic_cost\<close> of
  \<^verbatim>\<open>calculate_cost\<close>; \<open>None\<close> in the outer option stands for a call that raises.
  \<open>cr_resource_group\<close> is \<^verbatim>\<open>id.split('/')[4]\<close>, \<open>None\<close> when the id has fewer
  segments. \<open>cr_managed_by\<close> and \<open>cr_managed_by_extended\<close> are the truth values of
  these attributes.
\<close>

record ComputeResource =
  cr_name :: string
  cr_resource_group :: "string option"
  cr_time_created :: "int option"
  cr_tags :: "(string \<times> string) list"
  cr_managed_by :: bool
  cr_managed_by_extended :: bool
  cr_enhanced_cost :: "CostAnalysis option"
  cr_usage :: "UsageAnalysis option option"
  cr_backup :: "BackupPolicyAnalysis option option"
  cr_basic_cost :: "CostAnalysis option"

definition temp_tags :: "string list" where
  "temp_tags = [''temporary'', ''test'', ''dev'', ''poc'', ''demo'']"

text \<open>\<^verbatim>\<open>DiskAnalyzer._calculate_confidence_score\<close> (lines 416 to 441).\<close>

definition disk_calculate_confidence_score :: "int \<Rightarrow> ComputeResource \<Rightarrow> real" where
  "disk_calculate_confidence_score now resource =
     (let score = 0.5;
          score = (case cr_time_created resource of
                     None \<Rightarrow> score
                   | Some created \<Rightarrow>
                       (let days_old = timedelta_days now created in
                        if days_old > 90 then score + 0.2
                        else if days_old > 30 then score + 0.1
                        else score));
          score = (if cr_tags resource \<noteq> [] \<and> tags_mention temp_tags (cr_tags resource)
                   then score + 0.1 else score)
      in min 1.0 (max 0.0 score))"

text \<open>\<^verbatim>\<open>DiskAnalyzer._determine_severity\<close> (lines 443 to 457).\<close>

definition disk_determine_severity :: "CostAnalysis \<Rightarrow> ScanConfiguration \<Rightarrow> SeverityLevel" where
  "disk_determine_severity cost config =
     (let monthly_cost = current_monthly_cost cost in
      if monthly_cost > cost_threshold_critical config then CRITICAL
      else if monthly_cost > cost_threshold_high config then HIGH
      else if monthly_cost > cost_threshold_medium config then MEDIUM
      else if monthly_cost > 1.0 then LOW
      else INFO)"

text \<open>The dictionary \<^verbatim>\<open>severity_adjustments\<close>, the same in the three analyzers.\<close>

fun severity_adjustments :: "SeverityLevel \<Rightarrow> int" where
  "severity_adjustments CRITICAL = -2"
| "severity_adjustments HIGH = -1"
| "severity_adjustments MEDIUM = 0"
| "severity_adjustments LOW = 1"
| "severity_adjustments INFO = 2"

text \<open>\<^verbatim>\<open>DiskAnalyzer._calculate_cleanup_priority\<close> (lines 459 to 494).\<close>

definition disk_calculate_cleanup_priority :: "CostAnalysis \<Rightarrow> SeverityLevel \<Rightarrow> real \<Rightarrow> int" where
  "disk_calculate_cleanup_priority cost sev conf =
     (let priority = 5;
          monthly_cost = current_monthly_cost cost;
          priority = (if monthly_cost > 100 then priority - 3
                      else if monthly_cost > 50 then priority - 2
                      else if monthly_cost > 10 then priority - 1
                      else priority);
          priority = priority + severity_adjustments sev;
          priority = (if conf > 0.8 then priority - 1
                      else if conf < 0.5 then priority + 1
                      else priority)
      in max 1 (min 10 priority))"

text \<open>\<^verbatim>\<open>DiskAnalyzer._calculate_enhanced_confidence_score\<close> (lines 496 to 525).\<close>

definition disk_calculate_enhanced_confidence_score ::
  "int \<Rightarrow> ComputeResource \<Rightarrow> UsageAnalysis option \<Rightarrow> BackupPolicyAnalysis option \<Rightarrow> real" where
  "disk_calculate_enhanced_confidence_score now resource usage backup =
     (let score = disk_calculate_confidence_score now resource;
          score = (case usage of
                     None \<Rightarrow> score
                   | Some u \<Rightarrow>
                       if \<not> has_recent_activity u then score + 0.2
                       else score - activity_score u * 0.3);
          score = (case backup of
                     None \<Rightarrow> score
                   | Some b \<Rightarrow>
                       if risk_level b = ''critical'' then 0.1
                       else if risk_level b = ''high'' then score * 0.5
                       else if risk_level b = ''medium'' then score * 0.7
                       else if risk_level b = ''low'' then score + 0.1
                       else score)
      in min 1.0 (max 0.0 score))"

definition severity_order :: "SeverityLevel list" where
  "severity_order = [INFO, LOW, MEDIUM, HIGH, CRITICAL]"

text \<open>\<^verbatim>\<open>list.index\<close>, for an element that occurs in the list.\<close>

fun py_index :: "'a list \<Rightarrow> 'a \<Rightarrow> nat" where
  "py_index [] x = 0"
| "py_index (y # ys) x = (if y = x then 0 else Suc (py_index ys x))"

text \<open>
  \<^verbatim>\<open>DiskAnalyzer._determine_enhanced_severity\<close> (lines 527 to 553). The test
  \<^verbatim>\<open>base_severity.value < SeverityLevel.HIGH.value\<close> compares the two enum values,
  which are strings.
\<close>

definition disk_determine_enhanced_severity ::
  "CostAnalysis \<Rightarrow> UsageAnalysis option \<Rightarrow> BackupPolicyAnalysis option \<Rightarrow> ScanConfiguration
     \<Rightarrow> SeverityLevel" where
  "disk_determine_enhanced_severity cost usage backup config =
     (let base_severity = disk_determine_severity cost config in
      if (case backup of None \<Rightarrow> False | Some b \<Rightarrow> risk_level b = ''critical'') then CRITICAL
      else if (case backup of None \<Rightarrow> False
               | Some b \<Rightarrow> risk_level b = ''high''
                   \<and> py_str_less (severity_value base_severity) (severity_value HIGH)) then HIGH
      else if (case usage of None \<Rightarrow> False
               | Some u \<Rightarrow> has_recent_activity u \<and> activity_score u > 0.5) then
        (let current_index = py_index severity_order base_severity in
         if current_index > 0 then severity_order ! (current_index - 1) else base_severity)
      else base_severity)"

section \<open>Scoring of public IP addresses\<close>

text \<open>
  What the analyzer reads of a public IP object. \<open>pip_ip_configuration\<close> and
  \<open>pip_nat_gateway\<close> are the truth values of these attributes, \<open>pip_cost\<close> is the
  result of \<^verbatim>\<open>calculate_cost\<close> (\<open>None\<close> when it raises), \<open>pip_resource_group\<close> is
  \<^verbatim>\<open>id.split('/')[4]\<close>.
\<close>

record PublicIP =
  pip_name :: string
  pip_resource_group :: "string option"
  pip_ip_configuration :: bool
  pip_nat_gateway :: bool
  pip_allocation_method :: string
  pip_tags :: "(string \<times> string) list"
  pip_cost :: "CostAnalysis option"

text \<open>\<^verbatim>\<open>PublicIPAnalyzer._calculate_confidence_score\<close> (lines 133 to 154).\<close>

definition pip_calculate_confidence_score :: "PublicIP \<Rightarrow> real" where
  "pip_calculate_confidence_score resource =
     (let score = 0.5;
          score = (if \<not> pip_ip_configuration resource \<and> \<not> pip_nat_gateway resource
                   then score + 0.3 else score);
          score = (if pip_tags resource \<noteq> [] \<and> tags_mention temp_tags (pip_tags resource)
                   then score + 0.1 else score)
      in min 1.0 (max 0.0 score))"

text \<open>\<^verbatim>\<open>PublicIPAnalyzer._determine_severity\<close> (lines 156 to 172).\<close>

definition pip_determine_severity ::
  "CostAnalysis \<Rightarrow> string list \<Rightarrow> ScanConfiguration \<Rightarrow> SeverityLevel" where
  "pip_determine_severity cost risks config =
     (let monthly_cost = current_monthly_cost cost in
      if risks \<noteq> [] then HIGH
      else if monthly_cost > cost_threshold_medium config then MEDIUM
      else LOW)"

text \<open>\<^verbatim>\<open>PublicIPAnalyzer._calculate_cleanup_priority\<close> (lines 174 to 207).\<close>

definition pip_calculate_cleanup_priority :: "CostAnalysis \<Rightarrow> SeverityLevel \<Rightarrow> real \<Rightarrow> int" where
  "pip_calculate_cleanup_priority cost sev conf =
     (let priority = 5;
          monthly_cost = current_monthly_cost cost;
          priority = (if monthly_cost > 50 then priority - 2
                      else if monthly_cost > 10 then priority - 1
                      else priority);
          priority = priority + severity_adjustments sev;
          priority = (if conf > 0.8 then priority - 1
                      else if conf < 0.5 then priority + 1
                      else priority)
      in max 1 (min 10 priority))"

section \<open>Scoring of storage accounts\<close>

text \<open>
  What the analyzer reads of a storage account object. For the attributes tested with
  \<^verbatim>\<open>hasattr\<close>, \<open>None\<close> stands for an object without the attribute:
  \<open>sa_allow_blob_public_access\<close> and \<open>sa_enable_https_traffic_only\<close> carry the truth value
  of the attribute, \<open>sa_encryption\<close> the truth value of
  \<^verbatim>\<open>encryption and hasattr(encryption, 'services')\<close>, \<open>sa_access_tier\<close> the tier.
\<close>

record StorageAccount =
  sa_name :: string
  sa_resource_group :: "string option"
  sa_creation_time :: "int option"
  sa_access_tier :: "string option"
  sa_tags :: "(string \<times> string) list"
  sa_allow_blob_public_access :: "bool option"
  sa_enable_https_traffic_only :: "bool option"
  sa_encryption :: "bool option"
  sa_cost :: "CostAnalysis option"

text \<open>
  The dictionary built by \<^verbatim>\<open>_analyze_storage_account\<close>, without the texts of
  \<^verbatim>\<open>confidence_factors\<close>, which no score reads.
\<close>

record StorageOrphanAnalysis =
  is_orphaned :: bool
  orphan_reason :: OrphanageReason
  usage_indicators :: "string list"

text \<open>\<^verbatim>\<open>StorageAccountAnalyzer._is_system_storage_account\<close> (lines 120 to 129).\<close>

definition storage_is_system_storage_account :: "StorageAccount \<Rightarrow> bool" where
  "storage_is_system_storage_account sa =
     (let account_name = py_lower (sa_name sa) in
      list_ex (\<lambda>indicator. py_in_str indicator account_name)
        [''bootdiag'', ''diag'', ''diagnostic'', ''logs'', ''monitor'',
         ''cloudshell'', ''function'', ''appservice'', ''website''])"

text \<open>\<^verbatim>\<open>StorageAccountAnalyzer._has_known_integrations\<close> (lines 131 to 150).\<close>

fun py_join_space :: "string list \<Rightarrow> string" where
  "py_join_space [] = []"
| "py_join_space [s] = s"
| "py_join_space (s # ss) = s @ '' '' @ py_join_space ss"

definition storage_has_known_integrations :: "StorageAccount \<Rightarrow> bool" where
  "storage_has_known_integrations sa =
     (if sa_tags sa \<noteq> [] \<and>
         (let tag_values = py_join_space (map (\<lambda>(k, v). py_lower v) (sa_tags sa)) in
          list_ex (\<lambda>tag. py_in_str tag tag_values)
            [''backup'', ''function'', ''webapp'', ''logic'', ''datafactory'',
             ''synapse'', ''databricks'', ''hdinsight''])
      then True
      else (let account_name = py_lower (sa_name sa) in
            list_ex (\<lambda>pattern. py_in_str pattern account_name)
              [''backup'', ''function'', ''webapp'', ''logic'', ''data'',
               ''analytics'', ''ml'', ''ai'', ''synapse'']))"

text \<open>
  \<^verbatim>\<open>StorageAccountAnalyzer._analyze_storage_account\<close> (lines 67 to 118). When the
  account has no creation time, \<^verbatim>\<open>days_old\<close> is unbound at line 108: the NameError is
  caught and the analysis is returned as it stands, not orphaned.
\<close>

definition storage_analyze_storage_account ::
  "int \<Rightarrow> StorageAccount \<Rightarrow> ScanConfiguration \<Rightarrow> StorageOrphanAnalysis" where
  "storage_analyze_storage_account now sa config =
     (let analysis = \<lparr>is_orphaned = False, orphan_reason = UNUSED, usage_indicators = []\<rparr> in
      if (case sa_creation_time sa of None \<Rightarrow> False
          | Some created \<Rightarrow> timedelta_days now created < 7) then analysis
      else if storage_is_system_storage_account sa then analysis
      else
        (let (usage_score, analysis) =
               (if sa_access_tier sa = Some ''Archive'' then
                  (1 :: real, analysis\<lparr>usage_indicators :=
                     usage_indicators analysis @ [''Archive tier indicates infrequent access'']\<rparr>)
                else if sa_access_tier sa = Some ''Cool'' then
                  (0.5, analysis\<lparr>usage_indicators :=
                     usage_indicators analysis @ [''Cool tier indicates lower usage'']\<rparr>)
                else (0, analysis))
         in if storage_has_known_integrations sa then analysis
            else (case sa_creation_time sa of
                    None \<Rightarrow> analysis
                  | Some created \<Rightarrow>
                      if timedelta_days now created > max_age_days config \<and> usage_score < 2
                      then analysis\<lparr>is_orphaned := True\<rparr>
                      else analysis)))"

text \<open>\<^verbatim>\<open>StorageAccountAnalyzer._calculate_confidence_score\<close> (lines 251 to 286).\<close>

definition storage_calculate_confidence_score ::
  "int \<Rightarrow> StorageAccount \<Rightarrow> StorageOrphanAnalysis \<Rightarrow> real" where
  "storage_calculate_confidence_score now resource analysis =
     (let score = 0.3;
          score = (case sa_creation_time resource of
                     None \<Rightarrow> score
                   | Some created \<Rightarrow>
                       (let days_old = timedelta_days now created in
                        if days_old > 180 then score + 0.3
                        else if days_old > 90 then score + 0.2
                        else if days_old > 30 then score + 0.1
                        else score));
          score = (if usage_indicators analysis \<noteq> [] then score + 0.2 else score);
          score = (if sa_tags resource \<noteq> [] \<and>
                      tags_mention (temp_tags @ [''sandbox'']) (sa_tags resource)
                   then score + 0.2 else score);
          score = (if storage_is_system_storage_account resource then score - 0.3 else score)
      in min 0.9 (max 0.1 score))"

text \<open>\<^verbatim>\<open>StorageAccountAnalyzer._determine_severity\<close> (lines 288 to 312).\<close>

definition storage_determine_severity ::
  "CostAnalysis \<Rightarrow> string \<Rightarrow> string list \<Rightarrow> ScanConfiguration \<Rightarrow> SeverityLevel" where
  "storage_determine_severity cost exposure risks config =
     (let monthly_cost = current_monthly_cost cost in
      if exposure = ''external'' then HIGH
      else if monthly_cost > cost_threshold_critical config then CRITICAL
      else if monthly_cost > cost_threshold_high config then HIGH
      else if monthly_cost > cost_threshold_medium config then MEDIUM
      else if length risks > 3 then MEDIUM
      else LOW)"

text \<open>\<^verbatim>\<open>StorageAccountAnalyzer._calculate_cleanup_priority\<close> (lines 314 to 347).\<close>

definition storage_calculate_cleanup_priority ::
  "CostAnalysis \<Rightarrow> SeverityLevel \<Rightarrow> real \<Rightarrow> int" where
  "storage_calculate_cleanup_priority cost sev conf =
     (let priority = 6;
          monthly_cost = current_monthly_cost cost;
          priority = (if monthly_cost > 100 then priority - 2
                      else if monthly_cost > 50 then priority - 1
                      else priority);
          priority = priority + severity_adjustments sev;
          priority = (if conf > 0.8 then priority - 1
                      else if conf < 0.4 then priority + 2
                      else priority)
      in max 2 (min 10 priority))"

section \<open>The disk analyzer\<close>

text \<open>
  The scoring chain of \<^verbatim>\<open>_create_enhanced_orphaned_disk_resource\<close> and
  \<^verbatim>\<open>_create_enhanced_orphaned_snapshot_resource\<close>: the enhanced confidence (step 6),
  the enhanced severity (step 7) and the cleanup priority computed from both.
\<close>

definition enhanced_cleanup_priority ::
  "int \<Rightarrow> ComputeResource \<Rightarrow> CostAnalysis \<Rightarrow> UsageAnalysis option
     \<Rightarrow> BackupPolicyAnalysis option \<Rightarrow> ScanConfiguration \<Rightarrow> int" where
  "enhanced_cleanup_priority now resource cost usage backup config =
     disk_calculate_cleanup_priority cost
       (disk_determine_enhanced_severity cost usage backup config)
       (disk_calculate_enhanced_confidence_score now resource usage backup)"

text \<open>
  \<^verbatim>\<open>DiskAnalyzer._create_orphaned_disk_resource\<close> and
  \<^verbatim>\<open>_create_orphaned_snapshot_resource\<close> (lines 311 to 414), the fallback without usage
  and backup analysis; the two differ in the resource type, the reason and the security
  risks. \<open>None\<close> is the \<^verbatim>\<open>None\<close> returned when a step raises. Recommendation texts and
  the \<^verbatim>\<open>details\<close> dictionary are left out.
\<close>

definition disk_create_basic_resource ::
  "AzureResourceType \<Rightarrow> OrphanageReason \<Rightarrow> string list \<Rightarrow> int \<Rightarrow> ComputeResource \<Rightarrow> string
     \<Rightarrow> ScanConfiguration \<Rightarrow> EnhancedOrphanedResource option" where
  "disk_create_basic_resource rtype reason risks now resource sub config =
     (case cr_basic_cost resource of
        None \<Rightarrow> None
      | Some cost \<Rightarrow>
          (let confidence = disk_calculate_confidence_score now resource;
               sev = disk_determine_severity cost config
           in case cr_resource_group resource of
                None \<Rightarrow> None
              | Some rg \<Rightarrow>
                  Some \<lparr>resource_name = cr_name resource, resource_type = rtype,
                        resource_group = rg, subscription_id = sub, subscription_name = None,
                        cost_analysis = cost, usage_analysis = None, security_risks = risks,
                        network_exposure = ''none'',
                        backup_analysis = Some default_backup_analysis,
                        severity = sev, orphanage_reason = reason,
                        confidence_score = confidence, tags = cr_tags resource,
                        cleanup_priority = disk_calculate_cleanup_priority cost sev confidence,
                        business_owner = None, project_code = None, environment = None\<rparr>))"

definition disk_create_orphaned_disk_resource ::
  "int \<Rightarrow> ComputeResource \<Rightarrow> string \<Rightarrow> ScanConfiguration \<Rightarrow> EnhancedOrphanedResource option" where
  "disk_create_orphaned_disk_resource now disk sub config =
     disk_create_basic_resource DISK UNATTACHED [''Disk may contain sensitive data'']
       now disk sub config"

definition disk_create_orphaned_snapshot_resource ::
  "int \<Rightarrow> ComputeResource \<Rightarrow> string \<Rightarrow> ScanConfiguration \<Rightarrow> EnhancedOrphanedResource option" where
  "disk_create_orphaned_snapshot_resource now snapshot sub config =
     disk_create_basic_resource SNAPSHOT EXPIRED [] now snapshot sub config"

text \<open>
  \<^verbatim>\<open>DiskAnalyzer._create_enhanced_orphaned_disk_resource\<close> (lines 165 to 245): when
  any step raises, the fallback is taken.
\<close>

definition disk_create_enhanced_orphaned_disk_resource ::
  "int \<Rightarrow> ComputeResource \<Rightarrow> string \<Rightarrow> ScanConfiguration \<Rightarrow> EnhancedOrphanedResource option" where
  "disk_create_enhanced_orphaned_disk_resource now disk sub config =
     (case (cr_resource_group disk, cr_enhanced_cost disk, cr_usage disk, cr_backup disk) of
        (Some rg, Some cost, Some usage, Some backup) \<Rightarrow>
          (let confidence = disk_calculate_enhanced_confidence_score now disk usage backup;
               sev = disk_determine_enhanced_severity cost usage backup config
           in Some \<lparr>resource_name = cr_name disk, resource_type = DISK,
                    resource_group = rg, subscription_id = sub, subscription_name = None,
                    cost_analysis = cost, usage_analysis = usage,
                    security_risks = [''Disk may contain sensitive data''],
                    network_exposure = ''none'', backup_analysis = backup,
                    severity = sev, orphanage_reason = UNATTACHED,
                    confidence_score = confidence, tags = cr_tags disk,
                    cleanup_priority = disk_calculate_cleanup_priority cost sev confidence,
                    business_owner = None, project_code = None, environment = None\<rparr>)
      | _ \<Rightarrow> disk_create_orphaned_disk_resource now disk sub config)"

text \<open>
  \<^verbatim>\<open>DiskAnalyzer._create_enhanced_orphaned_snapshot_resource\<close> (lines 247 to 309):
  no usage analysis is made for a snapshot.
\<close>

definition disk_create_enhanced_orphaned_snapshot_resource ::
  "int \<Rightarrow> ComputeResource \<Rightarrow> string \<Rightarrow> ScanConfiguration \<Rightarrow> EnhancedOrphanedResource option" where
  "disk_create_enhanced_orphaned_snapshot_resource now snapshot sub config =
     (case (cr_resource_group snapshot, cr_enhanced_cost snapshot, cr_backup snapshot) of
        (Some rg, Some cost, Some backup) \<Rightarrow>
          (let confidence = disk_calculate_enhanced_confidence_score now snapshot None backup;
               sev = disk_determine_enhanced_severity cost None backup config
           in Some \<lparr>resource_name = cr_name snapshot, resource_type = SNAPSHOT,
                    resource_group = rg, subscription_id = sub, subscription_name = None,
                    cost_analysis = cost, usage_analysis = None, security_risks = [],
                    network_exposure = ''none'', backup_analysis = backup,
                    severity = sev, orphanage_reason = EXPIRED,
                    confidence_score = confidence, tags = cr_tags snapshot,
                    cleanup_priority = disk_calculate_cleanup_priority cost sev confidence,
                    business_owner = None, project_code = None, environment = None\<rparr>)
      | _ \<Rightarrow> disk_create_orphaned_snapshot_resource now snapshot sub config)"

text \<open>\<^verbatim>\<open>DiskAnalyzer._should_include_resource\<close> (lines 92 to 113).\<close>

definition disk_should_include_resource ::
  "EnhancedOrphanedResource \<Rightarrow> ScanConfiguration \<Rightarrow> bool" where
  "disk_should_include_resource resource config =
     (if confidence_score resource < confidence_threshold config
         \<and> \<not> include_low_confidence config then False
      else if (case backup_analysis resource of
                 None \<Rightarrow> False
               | Some b \<Rightarrow> risk_level b = ''critical'') then False
      else if (case usage_analysis resource of
                 None \<Rightarrow> False
               | Some usage \<Rightarrow> has_recent_activity usage \<and> activity_score usage > 0.3) then False
      else True)"

text \<open>\<^verbatim>\<open>DiskAnalyzer._is_disk_orphaned\<close> (lines 115 to 117).\<close>

definition disk_is_disk_orphaned :: "ComputeResource \<Rightarrow> bool" where
  "disk_is_disk_orphaned disk = (\<not> cr_managed_by disk \<and> \<not> cr_managed_by_extended disk)"

text \<open>
  \<^verbatim>\<open>DiskAnalyzer._is_snapshot_orphaned_enhanced\<close> (lines 119 to 153). The age is
  compared as a \<^verbatim>\<open>timedelta\<close>, to the microsecond. An exception of the backup analysis,
  or of reading the resource group or the risk level, is caught and the snapshot counts
  as orphaned.
\<close>

definition disk_is_snapshot_orphaned_enhanced ::
  "int \<Rightarrow> ComputeResource \<Rightarrow> ScanConfiguration \<Rightarrow> bool" where
  "disk_is_snapshot_orphaned_enhanced now snapshot config =
     (case cr_time_created snapshot of
        None \<Rightarrow> False
      | Some created \<Rightarrow>
          (let basic_age_check = (now - created > max_age_days config * microseconds_per_day) in
           if \<not> basic_age_check then False
           else (case (cr_resource_group snapshot, cr_backup snapshot) of
                   (Some rg, Some (Some b)) \<Rightarrow> risk_level b \<noteq> ''critical''
                 | _ \<Rightarrow> True)))"

text \<open>
  The object passed as \<^verbatim>\<open>clients\<close>, reduced to the listings the analyzers read;
  \<open>None\<close> stands for a missing client or a listing call that raises.
\<close>

record Clients =
  compute_disks :: "ComputeResource list option"
  compute_snapshots :: "ComputeResource list option"
  network_public_ips :: "PublicIP list option"
  storage_accounts :: "StorageAccount list option"

text \<open>
  \<^verbatim>\<open>DiskAnalyzer.analyze\<close> (lines 45 to 90). Each loop appends to \<^verbatim>\<open>orphaned\<close>
  the included candidate of every orphaned resource; an exception of a listing ends the
  analysis with the candidates collected so far.
\<close>

definition disk_analyze_disk ::
  "int \<Rightarrow> string \<Rightarrow> ScanConfiguration \<Rightarrow> ComputeResource \<Rightarrow> EnhancedOrphanedResource list" where
  "disk_analyze_disk now sub config disk =
     (if disk_is_disk_orphaned disk then
        (case disk_create_enhanced_orphaned_disk_resource now disk sub config of
           None \<Rightarrow> []
         | Some orphaned_resource \<Rightarrow>
             if disk_should_include_resource orphaned_resource config
             then [orphaned_resource] else [])
      else [])"

definition disk_analyze_snapshot ::
  "int \<Rightarrow> string \<Rightarrow> ScanConfiguration \<Rightarrow> ComputeResource \<Rightarrow> EnhancedOrphanedResource list" where
  "disk_analyze_snapshot now sub config snapshot =
     (if disk_is_snapshot_orphaned_enhanced now snapshot config then
        (case disk_create_enhanced_orphaned_snapshot_resource now snapshot sub config of
           None \<Rightarrow> []
         | Some orphaned_resource \<Rightarrow>
             if disk_should_include_resource orphaned_resource config
             then [orphaned_resource] else [])
      else [])"

definition disk_analyze ::
  "int \<Rightarrow> string \<Rightarrow> Clients \<Rightarrow> ScanConfiguration \<Rightarrow> EnhancedOrphanedResource list" where
  "disk_analyze now sub clients config =
     (case compute_disks clients of
        None \<Rightarrow> []
      | Some disks \<Rightarrow>
          (let orphaned = concat (map (disk_analyze_disk now sub config) disks) in
           case compute_snapshots clients of
             None \<Rightarrow> orphaned
           | Some snapshots \<Rightarrow>
               orphaned @ concat (map (disk_analyze_snapshot now sub config) snapshots)))"

section \<open>The public IP analyzer\<close>

text \<open>\<^verbatim>\<open>PublicIPAnalyzer._is_public_ip_orphaned\<close> (lines 65 to 67).\<close>

definition pip_is_public_ip_orphaned :: "PublicIP \<Rightarrow> bool" where
  "pip_is_public_ip_orphaned pip = (\<not> pip_ip_configuration pip \<and> \<not> pip_nat_gateway pip)"

text \<open>\<^verbatim>\<open>PublicIPAnalyzer._create_orphaned_public_ip_resource\<close> (lines 69 to 131).\<close>

definition pip_create_orphaned_public_ip_resource ::
  "PublicIP \<Rightarrow> string \<Rightarrow> ScanConfiguration \<Rightarrow> EnhancedOrphanedResource option" where
  "pip_create_orphaned_public_ip_resource pip sub config =
     (case pip_cost pip of
        None \<Rightarrow> None
      | Some cost \<Rightarrow>
          (let risks = [''Unused public IP may be discoverable and targeted'',
                        ''IP address may be monitored by threat actors'',
                        ''Potential for DNS hijacking if records exist''];
               risks = (if pip_allocation_method pip = ''Static''
                        then risks @ [''Static IP maintains persistent attack surface'']
                        else risks);
               confidence = pip_calculate_confidence_score pip;
               sev = pip_determine_severity cost risks config
           in case pip_resource_group pip of
                None \<Rightarrow> None
              | Some rg \<Rightarrow>
                  Some \<lparr>resource_name = pip_name pip, resource_type = PUBLIC_IP,
                        resource_group = rg, subscription_id = sub, subscription_name = None,
                        cost_analysis = cost, usage_analysis = None, security_risks = risks,
                        network_exposure = ''external'',
                        backup_analysis = Some default_backup_analysis,
                        severity = sev, orphanage_reason = UNUSED,
                        confidence_score = confidence, tags = pip_tags pip,
                        cleanup_priority = pip_calculate_cleanup_priority cost sev confidence,
                        business_owner = None, project_code = None, environment = None\<rparr>))"

text \<open>\<^verbatim>\<open>PublicIPAnalyzer.analyze\<close> (lines 37 to 63).\<close>

definition pip_analyze_one ::
  "string \<Rightarrow> ScanConfiguration \<Rightarrow> PublicIP \<Rightarrow> EnhancedOrphanedResource list" where
  "pip_analyze_one sub config pip =
     (if pip_is_public_ip_orphaned pip then
        (case pip_create_orphaned_public_ip_resource pip sub config of
           None \<Rightarrow> []
         | Some orphaned_resource \<Rightarrow> [orphaned_resource])
      else [])"

definition pip_analyze ::
  "string \<Rightarrow> Clients \<Rightarrow> ScanConfiguration \<Rightarrow> EnhancedOrphanedResource list" where
  "pip_analyze sub clients config =
     (case network_public_ips clients of
        None \<Rightarrow> []
      | Some public_ips \<Rightarrow> concat (map (pip_analyze_one sub config) public_ips))"

section \<open>The storage account analyzer\<close>

text \<open>
  \<^verbatim>\<open>StorageAccountAnalyzer._create_orphaned_storage_resource\<close> (lines 152 to 249),
  without the recommendation texts and the \<^verbatim>\<open>details\<close> dictionary.
\<close>

definition storage_create_orphaned_storage_resource ::
  "int \<Rightarrow> StorageAccount \<Rightarrow> string \<Rightarrow> ScanConfiguration \<Rightarrow> StorageOrphanAnalysis
     \<Rightarrow> EnhancedOrphanedResource option" where
  "storage_create_orphaned_storage_resource now sa sub config analysis =
     (case sa_cost sa of
        None \<Rightarrow> None
      | Some cost \<Rightarrow>
          (let (exposure, risks) =
                 (case sa_allow_blob_public_access sa of
                    None \<Rightarrow> (''none'', [])
                  | Some True \<Rightarrow> (''external'', [''Public blob access is enabled''])
                  | Some False \<Rightarrow> (''internal'', []));
               risks = (case sa_enable_https_traffic_only sa of
                          Some False \<Rightarrow> risks @ [''HTTPS-only traffic is not enforced'']
                        | _ \<Rightarrow> risks);
               risks = risks @ [''Unused storage account may contain sensitive data'',
                                ''Account keys may be stored in applications or scripts'',
                                ''Potential for data exfiltration if compromised''];
               risks = (case sa_encryption sa of
                          Some False \<Rightarrow> risks @ [''Encryption status unclear'']
                        | _ \<Rightarrow> risks);
               confidence = storage_calculate_confidence_score now sa analysis;
               sev = storage_determine_severity cost exposure risks config
           in case sa_resource_group sa of
                None \<Rightarrow> None
              | Some rg \<Rightarrow>
                  Some \<lparr>resource_name = sa_name sa, resource_type = STORAGE_ACCOUNT,
                        resource_group = rg, subscription_id = sub, subscription_name = None,
                        cost_analysis = cost, usage_analysis = None, security_risks = risks,
                        network_exposure = exposure,
                        backup_analysis = Some default_backup_analysis,
                        severity = sev, orphanage_reason = orphan_reason analysis,
                        confidence_score = confidence, tags = sa_tags sa,
                        cleanup_priority =
                          storage_calculate_cleanup_priority cost sev confidence,
                        business_owner = None, project_code = None, environment = None\<rparr>))"

text \<open>\<^verbatim>\<open>StorageAccountAnalyzer.analyze\<close> (lines 38 to 65).\<close>

definition storage_analyze_one ::
  "int \<Rightarrow> string \<Rightarrow> ScanConfiguration \<Rightarrow> StorageAccount \<Rightarrow> EnhancedOrphanedResource list" where
  "storage_analyze_one now sub config sa =
     (let orphan_analysis = storage_analyze_storage_account now sa config in
      if is_orphaned orphan_analysis then
        (case storage_create_orphaned_storage_resource now sa sub config orphan_analysis of
           None \<Rightarrow> []
         | Some orphaned_resource \<Rightarrow> [orphaned_resource])
      else [])"

definition storage_analyze ::
  "int \<Rightarrow> string \<Rightarrow> Clients \<Rightarrow> ScanConfiguration \<Rightarrow> EnhancedOrphanedResource list" where
  "storage_analyze now sub clients config =
     (case storage_accounts clients of
        None \<Rightarrow> []
      | Some accounts \<Rightarrow> concat (map (storage_analyze_one now sub config) accounts))"

section \<open>The detector\<close>

text \<open>
  The analyzers of the repository that are modelled here; the registry of a new
  \<^verbatim>\<open>OrphanDetector\<close> enables the first two (\<^verbatim>\<open>_register_default_analyzers\<close>).
\<close>

datatype Analyzer = DiskAnalyzer | PublicIPAnalyzer | StorageAccountAnalyzer

definition run_analyzer ::
  "Analyzer \<Rightarrow> int \<Rightarrow> string \<Rightarrow> Clients \<Rightarrow> ScanConfiguration \<Rightarrow> EnhancedOrphanedResource list" where
  "run_analyzer a now sub clients config =
     (case a of
        DiskAnalyzer \<Rightarrow> disk_analyze now sub clients config
      | PublicIPAnalyzer \<Rightarrow> pip_analyze sub clients config
      | StorageAccountAnalyzer \<Rightarrow> storage_analyze now sub clients config)"

text \<open>
  The surroundings of one scan: the current time, the answer of
  \<^verbatim>\<open>get_accessible_subscriptions\<close> and of \<^verbatim>\<open>get_clients_for_subscription\<close> (\<open>Inl\<close>
  carries the text of the exception raised), and the cache of subscription names.
\<close>

record Azure =
  az_now :: int
  az_accessible_subscriptions :: "string + string list"
  az_clients :: "string \<Rightarrow> string + Clients"
  az_subscription_cache :: "(string \<times> string) list"

record OrphanDetector =
  det_config :: ScanConfiguration
  det_enabled_analyzers :: "Analyzer list"

definition new_detector :: "ScanConfiguration \<Rightarrow> OrphanDetector" where
  "new_detector config =
     \<lparr>det_config = config, det_enabled_analyzers = [DiskAnalyzer, PublicIPAnalyzer]\<rparr>"

record ScanResult =
  orphaned_resources :: "EnhancedOrphanedResource list"
  total_monthly_savings :: real
  total_annual_savings :: real
  errors :: "string list"

text \<open>
  The result of a call: a value, an exception with its text, or no return at all
  (every task waits for a semaphore of capacity zero).
\<close>

datatype 'a outcome = Returns 'a | Raises string | NeverReturns

text \<open>\<^verbatim>\<open>OrphanDetector._should_include_resource\<close> (lines 200 to 218).\<close>

definition should_include_resource ::
  "ScanConfiguration \<Rightarrow> EnhancedOrphanedResource \<Rightarrow> bool" where
  "should_include_resource config resource =
     (if \<not> include_low_confidence config
         \<and> confidence_score resource < confidence_threshold config then False
      else if resource_group resource \<in> set (excluded_resource_groups config) then False
      else if list_ex (\<lambda>(tag_key, tag_values).
                 case map_of (tags resource) tag_key of
                   None \<Rightarrow> False
                 | Some v \<Rightarrow> tag_values = [] \<or> v \<in> set tag_values)
               (excluded_tags config) then False
      else True)"

text \<open>\<^verbatim>\<open>AuthenticationManager.get_subscription_name\<close>.\<close>

definition get_subscription_name :: "Azure \<Rightarrow> string \<Rightarrow> string" where
  "get_subscription_name az sub =
     (case map_of (az_subscription_cache az) sub of
        Some name \<Rightarrow> name
      | None \<Rightarrow> take 8 sub @ ''...'')"

text \<open>\<^verbatim>\<open>OrphanDetector._enrich_resource_data\<close> (lines 220 to 241).\<close>

definition enrich_resource_data ::
  "Azure \<Rightarrow> string \<Rightarrow> EnhancedOrphanedResource \<Rightarrow> EnhancedOrphanedResource" where
  "enrich_resource_data az sub resource =
     (let resource =
            (if subscription_name resource = None \<or> subscription_name resource = Some []
             then resource\<lparr>subscription_name := Some (get_subscription_name az sub)\<rparr>
             else resource);
          resource = (case map_of (tags resource) ''owner'' of
                        Some v \<Rightarrow> resource\<lparr>business_owner := Some v\<rparr>
                      | None \<Rightarrow> resource);
          resource = (case map_of (tags resource) ''project'' of
                        Some v \<Rightarrow> resource\<lparr>project_code := Some v\<rparr>
                      | None \<Rightarrow> resource);
          resource = (case map_of (tags resource) ''environment'' of
                        Some v \<Rightarrow> resource\<lparr>environment := Some v\<rparr>
                      | None \<Rightarrow> resource)
      in resource)"

text \<open>The sort key \<^verbatim>\<open>(x.cleanup_priority, -x.cost_analysis.current_monthly_cost)\<close>.\<close>

definition sort_key_of :: "EnhancedOrphanedResource \<Rightarrow> int \<times> real" where
  "sort_key_of x = (cleanup_priority x, - current_monthly_cost (cost_analysis x))"

text \<open>
  \<^verbatim>\<open>OrphanDetector._post_process_resources\<close> (lines 176 to 198): filter, enrich,
  then the stable sort of \<^verbatim>\<open>list.sort\<close>.
\<close>

definition post_process_resources ::
  "Azure \<Rightarrow> ScanConfiguration \<Rightarrow> EnhancedOrphanedResource list \<Rightarrow> string
     \<Rightarrow> EnhancedOrphanedResource list" where
  "post_process_resources az config resources sub =
     (let processed =
            map (enrich_resource_data az sub) (filter (should_include_resource config) resources)
      in sort_key sort_key_of processed)"

text \<open>
  \<^verbatim>\<open>OrphanDetector._scan_single_subscription\<close> (lines 144 to 174): \<open>Inl\<close> is the
  exception of \<^verbatim>\<open>get_clients_for_subscription\<close>, raised again; the analyzers catch
  their own exceptions.
\<close>

definition scan_single_subscription ::
  "Azure \<Rightarrow> OrphanDetector \<Rightarrow> string \<Rightarrow> string + EnhancedOrphanedResource list" where
  "scan_single_subscription az det sub =
     (case az_clients az sub of
        Inl e \<Rightarrow> Inl e
      | Inr clients \<Rightarrow>
          (let all_resources =
                 concat (map (\<lambda>a. run_analyzer a (az_now az) sub clients (det_config det))
                           (det_enabled_analyzers det))
           in Inr (post_process_resources az (det_config det) all_resources sub)))"

text \<open>
  The task \<^verbatim>\<open>scan_subscription\<close> nested in \<^verbatim>\<open>scan_subscriptions\<close> (lines 104 to
  111): the list \<^verbatim>\<open>scan_result.errors\<close> is passed in and returned.
\<close>

definition scan_subscription ::
  "Azure \<Rightarrow> OrphanDetector \<Rightarrow> string \<Rightarrow> string list
     \<Rightarrow> EnhancedOrphanedResource list \<times> string list" where
  "scan_subscription az det sub errs =
     (case scan_single_subscription az det sub of
        Inr result \<Rightarrow> (result, errs)
      | Inl e \<Rightarrow> ([], errs @ [''Subscription '' @ sub @ '': '' @ e]))"

text \<open>
  \<^verbatim>\<open>asyncio.gather\<close> over the tasks: the results come in the order of the
  subscriptions. The tasks are run one after the other, so the error entries are in that
  order too.
\<close>

fun gather_tasks ::
  "Azure \<Rightarrow> OrphanDetector \<Rightarrow> string list \<Rightarrow> string list
     \<Rightarrow> EnhancedOrphanedResource list list \<times> string list" where
  "gather_tasks az det [] errs = ([], errs)"
| "gather_tasks az det (sub # subs) errs =
     (let (result, errs) = scan_subscription az det sub errs;
          (results, errs) = gather_tasks az det subs errs
      in (result # results, errs))"

text \<open>
  The choice of the subscriptions to scan (lines 88 to 91 of
  \<^verbatim>\<open>scan_subscriptions\<close>): the argument, else the configured ones, else the
  accessible ones, whose listing may raise.
\<close>

definition select_subscriptions ::
  "Azure \<Rightarrow> OrphanDetector \<Rightarrow> string list option \<Rightarrow> string + string list" where
  "select_subscriptions az det ids =
     (let subs_to_scan = (case ids of
                            None \<Rightarrow> subscription_ids (det_config det)
                          | Some l \<Rightarrow> if l \<noteq> [] then l else subscription_ids (det_config det))
      in if subs_to_scan = [] then az_accessible_subscriptions az else Inr subs_to_scan)"

text \<open>
  \<^verbatim>\<open>OrphanDetector.scan_subscriptions\<close> (lines 77 to 142), without the scan id, the
  timestamps and the statistics. \<^verbatim>\<open>asyncio.Semaphore\<close> raises ValueError for a
  negative capacity; with capacity zero no task ever enters. The built-in \<^verbatim>\<open>sum\<close>
  adds from the left, starting at zero.
\<close>

definition scan_subscriptions ::
  "Azure \<Rightarrow> OrphanDetector \<Rightarrow> string list option \<Rightarrow> ScanResult outcome" where
  "scan_subscriptions az det ids =
     (case select_subscriptions az det ids of
        Inl e \<Rightarrow> Raises e
      | Inr subs_to_scan \<Rightarrow>
          if parallel_workers (det_config det) < 0
          then Raises ''Semaphore initial value must be >= 0''
          else if parallel_workers (det_config det) = 0 \<and> subs_to_scan \<noteq> [] then NeverReturns
          else
            (let (results, errs) = gather_tasks az det subs_to_scan [];
                 all_orphaned_resources = concat results;
                 total = foldl (+) 0
                           (map (\<lambda>r. current_monthly_cost (cost_analysis r))
                              all_orphaned_resources)
             in Returns \<lparr>orphaned_resources = all_orphaned_resources,
                         total_monthly_savings = total,
                         total_annual_savings = total * 12,
                         errors = errs\<rparr>))"

section \<open>The formulas of the specification\<close>

text \<open>
  The order the specification gives for the final list: cleanup priority ascending, ties
  broken by monthly cost descending.
\<close>

definition priority_order :: "EnhancedOrphanedResource \<Rightarrow> EnhancedOrphanedResource \<Rightarrow> bool" where
  "priority_order x y =
     (cleanup_priority x < cleanup_priority y
      \<or> (cleanup_priority x = cleanup_priority y
         \<and> current_monthly_cost (cost_analysis y) \<le> current_monthly_cost (cost_analysis x)))"

text \<open>
  The enhanced severity as the specification words it, over the cost-based severity
  \<open>base\<close>, with the ordering info, low, medium, high, critical.
\<close>

definition spec_enhanced_severity ::
  "SeverityLevel \<Rightarrow> UsageAnalysis option \<Rightarrow> BackupPolicyAnalysis option \<Rightarrow> SeverityLevel" where
  "spec_enhanced_severity base usage backup =
     (if (case backup of None \<Rightarrow> False | Some b \<Rightarrow> risk_level b = ''critical'') then CRITICAL
      else if (case backup of None \<Rightarrow> False | Some b \<Rightarrow> risk_level b = ''high'')
              \<and> (base = INFO \<or> base = LOW \<or> base = MEDIUM) then HIGH
      else if (case usage of None \<Rightarrow> False
               | Some u \<Rightarrow> has_recent_activity u \<and> activity_score u > 0.5) then
        (case base of
           CRITICAL \<Rightarrow> HIGH | HIGH \<Rightarrow> MEDIUM | MEDIUM \<Rightarrow> LOW | LOW \<Rightarrow> INFO | INFO \<Rightarrow> INFO)
      else base)"

text \<open>
  The cleanup priority as the specification words it: a baseline, less a reduction for
  the cost, plus the severity adjustment, less one for a confidence above 0.8 or plus a
  penalty for a confidence below the cutoff, clamped between the floor and ten.
\<close>

definition cleanup_priority_formula ::
  "int \<Rightarrow> int \<Rightarrow> real \<Rightarrow> int \<Rightarrow> int \<Rightarrow> SeverityLevel \<Rightarrow> real \<Rightarrow> int" where
  "cleanup_priority_formula baseline floor_priority cutoff penalty cost_reduction sev conf =
     max floor_priority
       (min 10 (baseline - cost_reduction + severity_adjustments sev
                + (if conf > 0.8 then - 1 else if conf < cutoff then penalty else 0)))"

definition spec_cost_reduction :: "real \<Rightarrow> int" where
  "spec_cost_reduction monthly_cost =
     (if monthly_cost > 100 then 3 else if monthly_cost > 50 then 2
      else if monthly_cost > 10 then 1 else 0)"

definition spec_cleanup_priority :: "Analyzer \<Rightarrow> CostAnalysis \<Rightarrow> SeverityLevel \<Rightarrow> real \<Rightarrow> int" where
  "spec_cleanup_priority a cost sev conf =
     (case a of
        StorageAccountAnalyzer \<Rightarrow>
          cleanup_priority_formula 6 2 0.4 2
            (spec_cost_reduction (current_monthly_cost cost)) sev conf
      | _ \<Rightarrow>
          cleanup_priority_formula 5 1 0.5 1
            (spec_cost_reduction (current_monthly_cost cost)) sev conf)"

section \<open>Example inputs\<close>

definition cost_of :: "real \<Rightarrow> CostAnalysis" where
  "cost_of c = \<lparr>current_monthly_cost = c, projected_annual_cost = c * 12\<rparr>"

definition backup_with_risk :: "string \<Rightarrow> BackupPolicyAnalysis" where
  "backup_with_risk r = default_backup_analysis\<lparr>risk_level := r\<rparr>"

definition idle_usage :: UsageAnalysis where
  "idle_usage = \<lparr>has_recent_activity = False, activity_score = 0\<rparr>"

definition busy_usage :: UsageAnalysis where
  "busy_usage = \<lparr>has_recent_activity = True, activity_score = 0.32\<rparr>"

text \<open>An unattached disk created a hundred days before time zero, costing 60 a month.\<close>

definition example_disk :: "string \<Rightarrow> UsageAnalysis \<Rightarrow> string \<Rightarrow> ComputeResource" where
  "example_disk name usage risk =
     \<lparr>cr_name = name, cr_resource_group = Some ''rg1'',
      cr_time_created = Some (- 100 * microseconds_per_day), cr_tags = [],
      cr_managed_by = False, cr_managed_by_extended = False,
      cr_enhanced_cost = Some (cost_of 60), cr_usage = Some (Some usage),
      cr_backup = Some (Some (backup_with_risk risk)), cr_basic_cost = Some (cost_of 60)\<rparr>"

definition example_pip :: PublicIP where
  "example_pip =
     \<lparr>pip_name = ''pip1'', pip_resource_group = Some ''rg1'', pip_ip_configuration = False,
      pip_nat_gateway = False, pip_allocation_method = ''Static'', pip_tags = [],
      pip_cost = Some (cost_of 4)\<rparr>"

definition example_clients_b :: Clients where
  "example_clients_b =
     \<lparr>compute_disks = Some [example_disk ''disk-keep'' idle_usage ''low'',
                             example_disk ''disk-busy'' busy_usage ''low'',
                             example_disk ''disk-vault'' idle_usage ''critical''],
      compute_snapshots = Some [], network_public_ips = Some [example_pip],
      storage_accounts = Some []\<rparr>"

definition example_clients_c :: Clients where
  "example_clients_c =
     \<lparr>compute_disks = Some [example_disk ''disk-keep'' idle_usage ''low''],
      compute_snapshots = None, network_public_ips = None, storage_accounts = None\<rparr>"

text \<open>Subscription \<open>sub-a\<close> cannot be opened; \<open>sub-b\<close> and \<open>sub-c\<close> can.\<close>

definition example_azure :: Azure where
  "example_azure =
     \<lparr>az_now = 0, az_accessible_subscriptions = Inr [],
      az_clients = (\<lambda>sub. if sub = ''sub-b'' then Inr example_clients_b
                           else if sub = ''sub-c'' then Inr example_clients_c
                           else Inl ''access denied''),
      az_subscription_cache = []\<rparr>"

definition example_detector :: OrphanDetector where
  "example_detector = new_detector default_configuration"

definition example_disk_candidate :: "string \<Rightarrow> string option \<Rightarrow> EnhancedOrphanedResource" where
  "example_disk_candidate sub sub_name =
     \<lparr>resource_name = ''disk-keep'', resource_type = DISK, resource_group = ''rg1'',
      subscription_id = sub, subscription_name = sub_name, cost_analysis = cost_of 60,
      usage_analysis = Some idle_usage, security_risks = [''Disk may contain sensitive data''],
      network_exposure = ''none'', backup_analysis = Some (backup_with_risk ''low''),
      severity = HIGH, orphanage_reason = UNATTACHED, confidence_score = 1, tags = [],
      cleanup_priority = 1, business_owner = None, project_code = None, environment = None\<rparr>"

definition example_pip_candidate :: "string \<Rightarrow> string option \<Rightarrow> EnhancedOrphanedResource" where
  "example_pip_candidate sub sub_name =
     \<lparr>resource_name = ''pip1'', resource_type = PUBLIC_IP, resource_group = ''rg1'',
      subscription_id = sub, subscription_name = sub_name, cost_analysis = cost_of 4,
      usage_analysis = None,
      security_risks = [''Unused public IP may be discoverable and targeted'',
                        ''IP address may be monitored by threat actors'',
                        ''Potential for DNS hijacking if records exist'',
                        ''Static IP maintains persistent attack surface''],
      network_exposure = ''external'', backup_analysis = Some default_backup_analysis,
      severity = HIGH, orphanage_reason = UNUSED, confidence_score = 0.8, tags = [],
      cleanup_priority = 4, business_owner = None, project_code = None, environment = None\<rparr>"

definition example_result_b :: ScanResult where
  "example_result_b =
     \<lparr>orphaned_resources = [example_disk_candidate ''sub-b'' (Some ''sub-b...''),
                             example_pip_candidate ''sub-b'' (Some ''sub-b...'')],
      total_monthly_savings = 64, total_annual_savings = 768, errors = []\<rparr>"

definition example_result_ab :: ScanResult where
  "example_result_ab = example_result_b\<lparr>errors := [''Subscription sub-a: access denied'']\<rparr>"

definition example_result_bc :: ScanResult where
  "example_result_bc =
     \<lparr>orphaned_resources = [example_disk_candidate ''sub-b'' (Some ''sub-b...''),
                             example_pip_candidate ''sub-b'' (Some ''sub-b...''),
                             example_disk_candidate ''sub-c'' (Some ''sub-c...'')],
      total_monthly_savings = 124, total_annual_savings = 1488, errors = []\<rparr>"

section \<open>Ranges of the scores\<close>

lemma severity_adjustments_range:
  "- 2 \<le> severity_adjustments s \<and> severity_adjustments s \<le> 2"
  by (cases s) simp_all

lemma clamp_range:
  "lo \<le> 10 \<Longrightarrow> lo \<le> max lo (min 10 (x :: int)) \<and> max lo (min 10 x) \<le> 10"
  by auto

lemma disk_priority_range:
  "1 \<le> disk_calculate_cleanup_priority c s f \<and> disk_calculate_cleanup_priority c s f \<le> 10"
  unfolding disk_calculate_cleanup_priority_def Let_def
  by (rule clamp_range) simp

lemma pip_priority_range:
  "1 \<le> pip_calculate_cleanup_priority c s f \<and> pip_calculate_cleanup_priority c s f \<le> 10"
  unfolding pip_calculate_cleanup_priority_def Let_def
  by (rule clamp_range) simp

lemma storage_priority_range:
  "2 \<le> storage_calculate_cleanup_priority c s f
   \<and> storage_calculate_cleanup_priority c s f \<le> 10"
  unfolding storage_calculate_cleanup_priority_def Let_def
  by (rule clamp_range) simp

lemma disk_confidence_range:
  "0 \<le> disk_calculate_confidence_score now r \<and> disk_calculate_confidence_score now r \<le> 1"
  by (simp add: disk_calculate_confidence_score_def Let_def)

lemma disk_enhanced_confidence_range:
  "0 \<le> disk_calculate_enhanced_confidence_score now r u b
   \<and> disk_calculate_enhanced_confidence_score now r u b \<le> 1"
  by (simp add: disk_calculate_enhanced_confidence_score_def Let_def)

lemma pip_confidence_range:
  "0 \<le> pip_calculate_confidence_score r \<and> pip_calculate_confidence_score r \<le> 1"
  by (simp add: pip_calculate_confidence_score_def Let_def)

lemma storage_clamp_range:
  "0 \<le> min 0.9 (max 0.1 (s :: real)) \<and> min 0.9 (max 0.1 s) \<le> 1"
  by (auto simp: min_def max_def)

lemma storage_confidence_range:
  "0 \<le> storage_calculate_confidence_score now r a
   \<and> storage_calculate_confidence_score now r a \<le> 1"
  unfolding storage_calculate_confidence_score_def Let_def
  by (rule storage_clamp_range)

section \<open>What the analyzers return\<close>

lemma basic_resource_scores:
  assumes "disk_create_basic_resource rt reason risks now res sub config = Some r"
  shows "0 \<le> confidence_score r \<and> confidence_score r \<le> 1
         \<and> 1 \<le> cleanup_priority r \<and> cleanup_priority r \<le> 10"
  using assms disk_priority_range disk_confidence_range
  by (auto simp: disk_create_basic_resource_def Let_def split: option.splits)

lemma enhanced_disk_scores:
  assumes "disk_create_enhanced_orphaned_disk_resource now res sub config = Some r"
  shows "0 \<le> confidence_score r \<and> confidence_score r \<le> 1
         \<and> 1 \<le> cleanup_priority r \<and> cleanup_priority r \<le> 10"
  using assms disk_priority_range disk_enhanced_confidence_range basic_resource_scores
  by (auto simp: disk_create_enhanced_orphaned_disk_resource_def
        disk_create_orphaned_disk_resource_def Let_def split: option.splits)

lemma enhanced_snapshot_scores:
  assumes "disk_create_enhanced_orphaned_snapshot_resource now res sub config = Some r"
  shows "0 \<le> confidence_score r \<and> confidence_score r \<le> 1
         \<and> 1 \<le> cleanup_priority r \<and> cleanup_priority r \<le> 10"
  using assms disk_priority_range disk_enhanced_confidence_range basic_resource_scores
  by (auto simp: disk_create_enhanced_orphaned_snapshot_resource_def
        disk_create_orphaned_snapshot_resource_def Let_def split: option.splits)

lemma disk_analyze_disk_member:
  assumes "r \<in> set (disk_analyze_disk now sub config x)"
  shows "disk_create_enhanced_orphaned_disk_resource now x sub config = Some r
         \<and> disk_should_include_resource r config"
proof (cases "disk_create_enhanced_orphaned_disk_resource now x sub config")
  case None
  then have "disk_analyze_disk now sub config x = []"
    unfolding disk_analyze_disk_def by simp
  with assms show ?thesis
    by simp
next
  case (Some c)
  then have "disk_analyze_disk now sub config x =
      (if disk_is_disk_orphaned x \<and> disk_should_include_resource c config then [c] else [])"
    unfolding disk_analyze_disk_def by simp
  with assms Some show ?thesis
    by (simp split: if_splits)
qed

lemma disk_analyze_snapshot_member:
  assumes "r \<in> set (disk_analyze_snapshot now sub config x)"
  shows "disk_create_enhanced_orphaned_snapshot_resource now x sub config = Some r
         \<and> disk_should_include_resource r config"
proof (cases "disk_create_enhanced_orphaned_snapshot_resource now x sub config")
  case None
  then have "disk_analyze_snapshot now sub config x = []"
    unfolding disk_analyze_snapshot_def by simp
  with assms show ?thesis
    by simp
next
  case (Some c)
  then have "disk_analyze_snapshot now sub config x =
      (if disk_is_snapshot_orphaned_enhanced now x config
          \<and> disk_should_include_resource c config then [c] else [])"
    unfolding disk_analyze_snapshot_def by simp
  with assms Some show ?thesis
    by (simp split: if_splits)
qed

lemma disk_analyze_member:
  assumes "r \<in> set (disk_analyze now sub clients config)"
  shows "disk_should_include_resource r config
         \<and> 0 \<le> confidence_score r \<and> confidence_score r \<le> 1
         \<and> 1 \<le> cleanup_priority r \<and> cleanup_priority r \<le> 10"
proof -
  from assms consider
      x where "r \<in> set (disk_analyze_disk now sub config x)"
    | x where "r \<in> set (disk_analyze_snapshot now sub config x)"
    by (auto simp: disk_analyze_def Let_def split: option.splits)
  then show ?thesis
  proof cases
    case 1
    from disk_analyze_disk_member[OF 1] enhanced_disk_scores show ?thesis
      by blast
  next
    case 2
    from disk_analyze_snapshot_member[OF 2] enhanced_snapshot_scores show ?thesis
      by blast
  qed
qed

lemma disk_include_not_critical:
  "disk_should_include_resource r config \<Longrightarrow> backup_analysis r = Some b \<Longrightarrow>
     risk_level b \<noteq> ''critical''"
  by (auto simp: disk_should_include_resource_def split: if_splits)

lemma disk_include_not_active:
  "disk_should_include_resource r config \<Longrightarrow> usage_analysis r = Some u \<Longrightarrow>
     \<not> (has_recent_activity u \<and> activity_score u > 0.3)"
  by (auto simp: disk_should_include_resource_def split: if_splits)

lemma pip_create_props:
  assumes "pip_create_orphaned_public_ip_resource pip sub config = Some r"
  shows "severity r = HIGH \<and> backup_analysis r = Some default_backup_analysis
         \<and> 0 \<le> confidence_score r \<and> confidence_score r \<le> 1
         \<and> 1 \<le> cleanup_priority r \<and> cleanup_priority r \<le> 10"
  using assms pip_priority_range pip_confidence_range
  by (auto simp: pip_create_orphaned_public_ip_resource_def pip_determine_severity_def Let_def
        split: option.splits)

lemma pip_analyze_member:
  assumes "r \<in> set (pip_analyze sub clients config)"
  shows "severity r = HIGH \<and> backup_analysis r = Some default_backup_analysis
         \<and> 0 \<le> confidence_score r \<and> confidence_score r \<le> 1
         \<and> 1 \<le> cleanup_priority r \<and> cleanup_priority r \<le> 10"
proof -
  from assms obtain pip where "pip_create_orphaned_public_ip_resource pip sub config = Some r"
    by (auto simp: pip_analyze_def pip_analyze_one_def split: option.splits if_splits)
  then show ?thesis
    by (rule pip_create_props)
qed

lemma storage_create_props:
  assumes "storage_create_orphaned_storage_resource now sa sub config an = Some r"
  shows "backup_analysis r = Some default_backup_analysis
         \<and> 0 \<le> confidence_score r \<and> confidence_score r \<le> 1
         \<and> 1 \<le> cleanup_priority r \<and> cleanup_priority r \<le> 10"
proof -
  have "1 \<le> storage_calculate_cleanup_priority c s f" for c s f
    using storage_priority_range[of c s f] by linarith
  with assms show ?thesis
    using storage_priority_range storage_confidence_range
    by (auto simp: storage_create_orphaned_storage_resource_def Let_def
          split: option.splits prod.splits)
qed

lemma storage_analyze_member:
  assumes "r \<in> set (storage_analyze now sub clients config)"
  shows "backup_analysis r = Some default_backup_analysis
         \<and> 0 \<le> confidence_score r \<and> confidence_score r \<le> 1
         \<and> 1 \<le> cleanup_priority r \<and> cleanup_priority r \<le> 10"
proof -
  from assms obtain sa an where
    "storage_create_orphaned_storage_resource now sa sub config an = Some r"
    by (auto simp: storage_analyze_def storage_analyze_one_def Let_def
          split: option.splits if_splits)
  then show ?thesis
    by (rule storage_create_props)
qed

lemma default_backup_not_critical: "risk_level default_backup_analysis \<noteq> ''critical''"
  by (simp add: default_backup_analysis_def)

lemma run_analyzer_not_critical:
  assumes "r \<in> set (run_analyzer a now sub clients config)" and "backup_analysis r = Some b"
  shows "risk_level b \<noteq> ''critical''"
proof (cases a)
  case DiskAnalyzer
  with assms(1) have "r \<in> set (disk_analyze now sub clients config)"
    by (simp add: run_analyzer_def)
  from disk_analyze_member[OF this] assms(2) show ?thesis
    using disk_include_not_critical by blast
next
  case PublicIPAnalyzer
  with assms(1) have "r \<in> set (pip_analyze sub clients config)"
    by (simp add: run_analyzer_def)
  from pip_analyze_member[OF this] assms(2) show ?thesis
    using default_backup_not_critical by simp
next
  case StorageAccountAnalyzer
  with assms(1) have "r \<in> set (storage_analyze now sub clients config)"
    by (simp add: run_analyzer_def)
  from storage_analyze_member[OF this] assms(2) show ?thesis
    using default_backup_not_critical by simp
qed

section \<open>What the detector returns\<close>

text \<open>Each statement of the enrichment leaves the scored fields as they are.\<close>

lemma enrich_steps:
  "backup_analysis (if c then r\<lparr>subscription_name := n\<rparr> else r) = backup_analysis r"
  "backup_analysis (case x of Some v \<Rightarrow> r\<lparr>business_owner := Some v\<rparr> | None \<Rightarrow> r) = backup_analysis r"
  "backup_analysis (case x of Some v \<Rightarrow> r\<lparr>project_code := Some v\<rparr> | None \<Rightarrow> r) = backup_analysis r"
  "backup_analysis (case x of Some v \<Rightarrow> r\<lparr>environment := Some v\<rparr> | None \<Rightarrow> r) = backup_analysis r"
  "cleanup_priority (if c then r\<lparr>subscription_name := n\<rparr> else r) = cleanup_priority r"
  "cleanup_priority (case x of Some v \<Rightarrow> r\<lparr>business_owner := Some v\<rparr> | None \<Rightarrow> r) = cleanup_priority r"
  "cleanup_priority (case x of Some v \<Rightarrow> r\<lparr>project_code := Some v\<rparr> | None \<Rightarrow> r) = cleanup_priority r"
  "cleanup_priority (case x of Some v \<Rightarrow> r\<lparr>environment := Some v\<rparr> | None \<Rightarrow> r) = cleanup_priority r"
  "cost_analysis (if c then r\<lparr>subscription_name := n\<rparr> else r) = cost_analysis r"
  "cost_analysis (case x of Some v \<Rightarrow> r\<lparr>business_owner := Some v\<rparr> | None \<Rightarrow> r) = cost_analysis r"
  "cost_analysis (case x of Some v \<Rightarrow> r\<lparr>project_code := Some v\<rparr> | None \<Rightarrow> r) = cost_analysis r"
  "cost_analysis (case x of Some v \<Rightarrow> r\<lparr>environment := Some v\<rparr> | None \<Rightarrow> r) = cost_analysis r"
  "confidence_score (if c then r\<lparr>subscription_name := n\<rparr> else r) = confidence_score r"
  "confidence_score (case x of Some v \<Rightarrow> r\<lparr>business_owner := Some v\<rparr> | None \<Rightarrow> r) = confidence_score r"
  "confidence_score (case x of Some v \<Rightarrow> r\<lparr>project_code := Some v\<rparr> | None \<Rightarrow> r) = confidence_score r"
  "confidence_score (case x of Some v \<Rightarrow> r\<lparr>environment := Some v\<rparr> | None \<Rightarrow> r) = confidence_score r"
  "resource_group (if c then r\<lparr>subscription_name := n\<rparr> else r) = resource_group r"
  "resource_group (case x of Some v \<Rightarrow> r\<lparr>business_owner := Some v\<rparr> | None \<Rightarrow> r) = resource_group r"
  "resource_group (case x of Some v \<Rightarrow> r\<lparr>project_code := Some v\<rparr> | None \<Rightarrow> r) = resource_group r"
  "resource_group (case x of Some v \<Rightarrow> r\<lparr>environment := Some v\<rparr> | None \<Rightarrow> r) = resource_group r"
  "tags (if c then r\<lparr>subscription_name := n\<rparr> else r) = tags r"
  "tags (case x of Some v \<Rightarrow> r\<lparr>business_owner := Some v\<rparr> | None \<Rightarrow> r) = tags r"
  "tags (case x of Some v \<Rightarrow> r\<lparr>project_code := Some v\<rparr> | None \<Rightarrow> r) = tags r"
  "tags (case x of Some v \<Rightarrow> r\<lparr>environment := Some v\<rparr> | None \<Rightarrow> r) = tags r"
  by (simp_all split: option.split)

lemma enrich_fields:
  "backup_analysis (enrich_resource_data az sub r) = backup_analysis r"
  "cleanup_priority (enrich_resource_data az sub r) = cleanup_priority r"
  "cost_analysis (enrich_resource_data az sub r) = cost_analysis r"
  "confidence_score (enrich_resource_data az sub r) = confidence_score r"
  "resource_group (enrich_resource_data az sub r) = resource_group r"
  "tags (enrich_resource_data az sub r) = tags r"
  unfolding enrich_resource_data_def Let_def
  by (simp_all only: enrich_steps)

lemma enrich_should_include:
  "should_include_resource config (enrich_resource_data az sub r)
     = should_include_resource config r"
  by (simp add: should_include_resource_def enrich_fields)

lemma post_process_set:
  "set (post_process_resources az config rs sub)
     = enrich_resource_data az sub ` {r \<in> set rs. should_include_resource config r}"
  by (simp add: post_process_resources_def Let_def)

lemma post_process_sorted:
  "sorted_wrt priority_order (post_process_resources az config rs sub)"
proof -
  have "sorted (map sort_key_of (post_process_resources az config rs sub))"
    by (simp add: post_process_resources_def Let_def)
  then have "sorted_wrt (\<lambda>x y. sort_key_of x \<le> sort_key_of y)
               (post_process_resources az config rs sub)"
    by (simp add: sorted_map)
  moreover have "sort_key_of x \<le> sort_key_of y \<Longrightarrow> priority_order x y" for x y
    by (auto simp: sort_key_of_def priority_order_def less_eq_prod_def)
  ultimately show ?thesis
    by (rule sorted_wrt_mono_rel[rotated]) simp
qed

lemma scan_single_member:
  assumes "scan_single_subscription az det sub = Inr rs" and "r \<in> set rs"
  shows "\<exists>clients a r0. r = enrich_resource_data az sub r0
           \<and> r0 \<in> set (run_analyzer a (az_now az) sub clients (det_config det))
           \<and> should_include_resource (det_config det) r0"
proof (cases "az_clients az sub")
  case (Inl e)
  with assms show ?thesis
    by (simp add: scan_single_subscription_def)
next
  case (Inr clients)
  with assms obtain r0 a where "r = enrich_resource_data az sub r0"
    "should_include_resource (det_config det) r0"
    "r0 \<in> set (run_analyzer a (az_now az) sub clients (det_config det))"
    by (auto simp: scan_single_subscription_def Let_def post_process_set)
  then show ?thesis
    by blast
qed

lemma scan_single_sorted:
  "scan_single_subscription az det sub = Inr rs \<Longrightarrow> sorted_wrt priority_order rs"
  by (auto simp: scan_single_subscription_def Let_def post_process_sorted split: sum.splits)

lemma scan_subscription_sorted:
  "sorted_wrt priority_order (fst (scan_subscription az det s errs))"
  by (auto simp: scan_subscription_def scan_single_sorted split: sum.splits)

lemma scan_subscription_fst:
  "fst (scan_subscription az det sub errs) = fst (scan_subscription az det sub [])"
  by (simp add: scan_subscription_def split: sum.splits)

lemma scan_subscription_snd:
  "snd (scan_subscription az det sub errs) = errs @ snd (scan_subscription az det sub [])"
  by (simp add: scan_subscription_def split: sum.splits)

lemma scan_subscription_member:
  assumes "r \<in> set (fst (scan_subscription az det sub errs))"
  shows "\<exists>rs. scan_single_subscription az det sub = Inr rs \<and> r \<in> set rs"
  using assms by (auto simp: scan_subscription_def split: sum.splits)

lemma gather_tasks_eq:
  "gather_tasks az det subs errs =
     (map (\<lambda>s. fst (scan_subscription az det s [])) subs,
      errs @ concat (map (\<lambda>s. snd (scan_subscription az det s [])) subs))"
proof (induction subs arbitrary: errs)
  case Nil
  show ?case by simp
next
  case (Cons s subs)
  obtain r e where se: "scan_subscription az det s errs = (r, e)"
    by (cases "scan_subscription az det s errs")
  have r: "r = fst (scan_subscription az det s [])"
    using se scan_subscription_fst[of az det s errs] by simp
  have e: "e = errs @ snd (scan_subscription az det s [])"
    using se scan_subscription_snd[of az det s errs] by simp
  show ?case
    by (simp add: se Cons.IH r e)
qed

lemma foldl_plus_sum_list: "foldl (+) a xs = a + sum_list (xs :: real list)"
  by (induction xs arbitrary: a) simp_all

lemma scan_subscriptions_returns:
  assumes "scan_subscriptions az det ids = Returns res"
  shows "\<exists>subs. select_subscriptions az det ids = Inr subs
           \<and> orphaned_resources res
               = concat (map (\<lambda>s. fst (scan_subscription az det s [])) subs)
           \<and> errors res = concat (map (\<lambda>s. snd (scan_subscription az det s [])) subs)
           \<and> total_monthly_savings res
               = sum_list (map (\<lambda>r. current_monthly_cost (cost_analysis r))
                            (orphaned_resources res))
           \<and> total_annual_savings res = total_monthly_savings res * 12"
proof (cases "select_subscriptions az det ids")
  case (Inl e)
  with assms show ?thesis
    by (simp add: scan_subscriptions_def)
next
  case (Inr subs)
  with assms show ?thesis
    by (auto simp: scan_subscriptions_def Let_def gather_tasks_eq foldl_plus_sum_list
          split: if_splits)
qed

lemma select_subscriptions_given:
  "l \<noteq> [] \<Longrightarrow> select_subscriptions az det (Some l) = Inr l"
  by (simp add: select_subscriptions_def)

lemma scan_result_member:
  assumes "scan_subscriptions az det ids = Returns res" and "r \<in> set (orphaned_resources res)"
  shows "\<exists>sub rs. scan_single_subscription az det sub = Inr rs \<and> r \<in> set rs"
proof -
  from scan_subscriptions_returns[OF assms(1)] assms(2)
  obtain s where "r \<in> set (fst (scan_subscription az det s []))"
    by auto
  then show ?thesis
    using scan_subscription_member by blast
qed

section \<open>The cleanup priority as a formula\<close>

lemma clamp_cong: "x = y \<Longrightarrow> max lo (min 10 x) = max lo (min 10 (y :: int))"
  by simp

lemma disk_priority_formula:
  "disk_calculate_cleanup_priority cost sev conf
     = cleanup_priority_formula 5 1 0.5 1
         (if current_monthly_cost cost > 100 then 3
          else if current_monthly_cost cost > 50 then 2
          else if current_monthly_cost cost > 10 then 1 else 0) sev conf"
  unfolding disk_calculate_cleanup_priority_def cleanup_priority_formula_def Let_def
  by (rule clamp_cong)
     (cases "current_monthly_cost cost > 100"; cases "current_monthly_cost cost > 50";
      cases "current_monthly_cost cost > 10"; cases "conf > 0.8"; cases "conf < 0.5"; simp)

lemma disk_priority_spec:
  "disk_calculate_cleanup_priority cost sev conf
     = spec_cleanup_priority DiskAnalyzer cost sev conf"
  unfolding spec_cleanup_priority_def spec_cost_reduction_def
  by (simp only: disk_priority_formula Analyzer.case)

lemma pip_priority_formula:
  "pip_calculate_cleanup_priority cost sev conf
     = cleanup_priority_formula 5 1 0.5 1
         (if current_monthly_cost cost > 50 then 2
          else if current_monthly_cost cost > 10 then 1 else 0) sev conf"
  unfolding pip_calculate_cleanup_priority_def cleanup_priority_formula_def Let_def
  by (rule clamp_cong)
     (cases "current_monthly_cost cost > 50"; cases "current_monthly_cost cost > 10";
      cases "conf > 0.8"; cases "conf < 0.5"; simp)

lemma storage_priority_formula:
  "storage_calculate_cleanup_priority cost sev conf
     = cleanup_priority_formula 6 2 0.4 2
         (if current_monthly_cost cost > 100 then 2
          else if current_monthly_cost cost > 50 then 1 else 0) sev conf"
  unfolding storage_calculate_cleanup_priority_def cleanup_priority_formula_def Let_def
  by (rule clamp_cong)
     (cases "current_monthly_cost cost > 100"; cases "current_monthly_cost cost > 50";
      cases "conf > 0.8"; cases "conf < 0.4"; simp)

section \<open>The critical backup risk in the scoring chain\<close>

lemma enhanced_severity_critical:
  "disk_determine_enhanced_severity cost usage (Some (b\<lparr>risk_level := ''critical''\<rparr>)) config
     = CRITICAL"
  by (simp add: disk_determine_enhanced_severity_def)

lemma enhanced_confidence_critical:
  "disk_calculate_enhanced_confidence_score now res usage
     (Some (b\<lparr>risk_level := ''critical''\<rparr>)) = 0.1"
  by (simp add: disk_calculate_enhanced_confidence_score_def Let_def)

lemma clamp_mono:
  "x \<le> y + d \<Longrightarrow> 0 \<le> d \<Longrightarrow> max 1 (min 10 (x :: int)) \<le> max 1 (min 10 y) + d"
  by auto

lemma priority_critical_le_plus2:
  "disk_calculate_cleanup_priority cost CRITICAL 0.1
     \<le> disk_calculate_cleanup_priority cost sev conf + 2"
proof -
  have "- 1 \<le> (if conf > 0.8 then - 1 else if conf < 0.5 then 1 else (0 :: int))"
    by simp
  with severity_adjustments_range[of sev] show ?thesis
    unfolding disk_priority_formula cleanup_priority_formula_def
    by (intro clamp_mono) simp_all
qed

lemma priority_critical_le:
  assumes "0 \<le> severity_adjustments sev"
  shows "disk_calculate_cleanup_priority cost CRITICAL 0.1
           \<le> disk_calculate_cleanup_priority cost sev conf"
proof -
  have "- 1 \<le> (if conf > 0.8 then - 1 else if conf < 0.5 then 1 else (0 :: int))"
    by simp
  with assms have "disk_calculate_cleanup_priority cost CRITICAL 0.1
           \<le> disk_calculate_cleanup_priority cost sev conf + 0"
    unfolding disk_priority_formula cleanup_priority_formula_def
    by (intro clamp_mono) simp_all
  then show ?thesis
    by simp
qed

section \<open>The example inputs, evaluated\<close>

lemma example_disk_keep:
  "disk_analyze_disk 0 sub default_configuration (example_disk ''disk-keep'' idle_usage ''low'')
     = [example_disk_candidate sub None]"
  by (simp add: disk_analyze_disk_def disk_is_disk_orphaned_def example_disk_def
      disk_create_enhanced_orphaned_disk_resource_def disk_should_include_resource_def
      disk_calculate_cleanup_priority_def
      disk_determine_enhanced_severity_def disk_determine_severity_def
      disk_calculate_enhanced_confidence_score_def disk_calculate_confidence_score_def
      cost_of_def backup_with_risk_def default_backup_analysis_def default_configuration_def
      timedelta_days_def microseconds_per_day_def idle_usage_def example_disk_candidate_def)

text \<open>
  The busy disk has confidence 0.704, above the threshold 0.7, and a low backup risk: it
  is dropped for its activity score alone.
\<close>

lemma example_disk_busy_scores:
  "disk_calculate_enhanced_confidence_score 0 (example_disk ''disk-busy'' busy_usage ''low'')
     (Some busy_usage) (Some (backup_with_risk ''low'')) = 0.704"
  by (simp add: example_disk_def
      disk_calculate_enhanced_confidence_score_def disk_calculate_confidence_score_def
      backup_with_risk_def default_backup_analysis_def
      timedelta_days_def microseconds_per_day_def busy_usage_def)

lemma example_disk_busy:
  "disk_analyze_disk 0 sub default_configuration (example_disk ''disk-busy'' busy_usage ''low'')
     = []"
  by (simp add: disk_analyze_disk_def disk_is_disk_orphaned_def example_disk_def
      disk_create_enhanced_orphaned_disk_resource_def disk_should_include_resource_def
      disk_calculate_cleanup_priority_def
      disk_determine_enhanced_severity_def disk_determine_severity_def
      disk_calculate_enhanced_confidence_score_def disk_calculate_confidence_score_def
      cost_of_def backup_with_risk_def default_backup_analysis_def default_configuration_def
      timedelta_days_def microseconds_per_day_def busy_usage_def)

lemma example_disk_vault:
  "disk_analyze_disk 0 sub default_configuration
     (example_disk ''disk-vault'' idle_usage ''critical'') = []"
  by (simp add: disk_analyze_disk_def disk_is_disk_orphaned_def example_disk_def
      disk_create_enhanced_orphaned_disk_resource_def disk_should_include_resource_def
      disk_calculate_cleanup_priority_def
      disk_determine_enhanced_severity_def disk_determine_severity_def
      disk_calculate_enhanced_confidence_score_def disk_calculate_confidence_score_def
      cost_of_def backup_with_risk_def default_backup_analysis_def default_configuration_def
      timedelta_days_def microseconds_per_day_def idle_usage_def)

lemma example_pip_one:
  "pip_analyze_one sub default_configuration example_pip = [example_pip_candidate sub None]"
  by (simp add: pip_analyze_one_def pip_is_public_ip_orphaned_def example_pip_def
      pip_create_orphaned_public_ip_resource_def pip_calculate_confidence_score_def
      pip_determine_severity_def pip_calculate_cleanup_priority_def cost_of_def
      example_pip_candidate_def default_configuration_def)

lemma example_disk_analyze_b:
  "disk_analyze 0 sub example_clients_b default_configuration
     = [example_disk_candidate sub None]"
  by (simp add: disk_analyze_def example_clients_b_def example_disk_keep example_disk_busy
      example_disk_vault)

lemma example_disk_analyze_c:
  "disk_analyze 0 sub example_clients_c default_configuration
     = [example_disk_candidate sub None]"
  by (simp add: disk_analyze_def example_clients_c_def example_disk_keep)

lemma example_pip_analyze_b:
  "pip_analyze sub example_clients_b default_configuration = [example_pip_candidate sub None]"
  by (simp add: pip_analyze_def example_clients_b_def example_pip_one)

lemma example_pip_analyze_c:
  "pip_analyze sub example_clients_c default_configuration = []"
  by (simp add: pip_analyze_def example_clients_c_def)

lemma example_include:
  "should_include_resource default_configuration (example_disk_candidate sub n)"
  "should_include_resource default_configuration (example_pip_candidate sub n)"
  by (simp_all add: should_include_resource_def default_configuration_def
      example_disk_candidate_def example_pip_candidate_def)

lemma example_enrich:
  "enrich_resource_data example_azure sub (example_disk_candidate sub None)
    = example_disk_candidate sub (Some (take 8 sub @ ''...''))"
  "enrich_resource_data example_azure sub (example_pip_candidate sub None)
    = example_pip_candidate sub (Some (take 8 sub @ ''...''))"
  by (simp_all add: enrich_resource_data_def example_disk_candidate_def
      example_pip_candidate_def get_subscription_name_def example_azure_def)

lemma example_keys:
  "sort_key_of (example_disk_candidate sub n) = (1, - 60)"
  "sort_key_of (example_pip_candidate sub n) = (4, - 4)"
  by (simp_all add: sort_key_of_def example_disk_candidate_def example_pip_candidate_def
      cost_of_def)

lemma example_azure_fields:
  "az_now example_azure = 0"
  "az_clients example_azure ''sub-a'' = Inl ''access denied''"
  "az_clients example_azure ''sub-b'' = Inr example_clients_b"
  "az_clients example_azure ''sub-c'' = Inr example_clients_c"
  by (simp_all add: example_azure_def)

lemma example_detector_fields:
  "det_config example_detector = default_configuration"
  "det_enabled_analyzers example_detector = [DiskAnalyzer, PublicIPAnalyzer]"
  "parallel_workers default_configuration = 4"
  "subscription_ids default_configuration = []"
  by (simp_all add: example_detector_def new_detector_def default_configuration_def)

lemma example_single_a:
  "scan_single_subscription example_azure example_detector ''sub-a'' = Inl ''access denied''"
  by (simp add: scan_single_subscription_def example_azure_fields)

lemma example_single_b:
  "scan_single_subscription example_azure example_detector ''sub-b''
     = Inr [example_disk_candidate ''sub-b'' (Some ''sub-b...''),
            example_pip_candidate ''sub-b'' (Some ''sub-b...'')]"
  by (simp add: scan_single_subscription_def run_analyzer_def example_detector_fields
      post_process_resources_def example_disk_analyze_b example_pip_analyze_b example_include
      example_enrich example_keys example_azure_fields)

lemma example_single_c:
  "scan_single_subscription example_azure example_detector ''sub-c''
     = Inr [example_disk_candidate ''sub-c'' (Some ''sub-c...'')]"
  by (simp add: scan_single_subscription_def run_analyzer_def example_detector_fields
      post_process_resources_def example_disk_analyze_c example_pip_analyze_c example_include
      example_enrich example_keys example_azure_fields)

lemma example_candidate_costs:
  "current_monthly_cost (cost_analysis (example_disk_candidate sub n)) = 60"
  "current_monthly_cost (cost_analysis (example_pip_candidate sub n)) = 4"
  "cleanup_priority (example_disk_candidate sub n) = 1"
  "cleanup_priority (example_pip_candidate sub n) = 4"
  by (simp_all add: example_disk_candidate_def example_pip_candidate_def cost_of_def)

lemma example_scan_b:
  "scan_subscriptions example_azure example_detector (Some [''sub-b'']) = Returns example_result_b"
  by (simp add: scan_subscriptions_def select_subscriptions_def scan_subscription_def
      example_single_b example_candidate_costs example_detector_fields example_result_b_def)

lemma example_scan_ab:
  "scan_subscriptions example_azure example_detector (Some [''sub-a'', ''sub-b''])
     = Returns example_result_ab"
  by (simp add: scan_subscriptions_def select_subscriptions_def scan_subscription_def
      example_single_a example_single_b example_candidate_costs example_detector_fields
      example_result_ab_def example_result_b_def)

lemma example_scan_bc:
  "scan_subscriptions example_azure example_detector (Some [''sub-b'', ''sub-c''])
     = Returns example_result_bc"
  by (simp add: scan_subscriptions_def select_subscriptions_def scan_subscription_def
      example_single_b example_single_c example_candidate_costs example_detector_fields
      example_result_bc_def)

section \<open>The claims\<close>

text \<open>
  Claim C1. No candidate of a scan result has a backup analysis with risk level
  \<open>critical\<close>. The detector's own filter does not look at the backup analysis; the
  candidates with a critical risk are dropped by the filter of the disk analyzer, and the
  other analyzers attach the default backup analysis, whose risk level is \<open>unknown\<close>.
  The statement holds for every list of enabled analyzers among the three modelled ones.
\<close>

theorem scan_result_excludes_critical_backup:
  assumes "scan_subscriptions az det ids = Returns res"
    and "r \<in> set (orphaned_resources res)"
    and "backup_analysis r = Some b"
  shows "risk_level b \<noteq> ''critical''"
proof -
  from scan_result_member[OF assms(1,2)] obtain sub rs where
    "scan_single_subscription az det sub = Inr rs" "r \<in> set rs"
    by blast
  from scan_single_member[OF this] obtain clients a r0 where
    r: "r = enrich_resource_data az sub r0"
    and r0: "r0 \<in> set (run_analyzer a (az_now az) sub clients (det_config det))"
    by blast
  from r assms(3) have "backup_analysis r0 = Some b"
    by (simp add: enrich_fields)
  with r0 show ?thesis
    by (rule run_analyzer_not_critical)
qed

theorem scan_result_excludes_critical_backup_witness:
  "scan_subscriptions example_azure example_detector (Some [''sub-b'']) = Returns example_result_b
   \<and> example_disk_candidate ''sub-b'' (Some ''sub-b...'') \<in> set (orphaned_resources example_result_b)
   \<and> backup_analysis (example_disk_candidate ''sub-b'' (Some ''sub-b...''))
        = Some (backup_with_risk ''low'')
   \<and> risk_level (backup_with_risk ''low'') \<noteq> ''critical''"
proof -
  have m: "example_disk_candidate ''sub-b'' (Some ''sub-b...'')
             \<in> set (orphaned_resources example_result_b)"
    by (simp add: example_result_b_def)
  have b: "backup_analysis (example_disk_candidate ''sub-b'' (Some ''sub-b...''))
             = Some (backup_with_risk ''low'')"
    by (simp add: example_disk_candidate_def)
  from scan_result_excludes_critical_backup[OF example_scan_b m b] example_scan_b m b
  show ?thesis
    by simp
qed

text \<open>
  Claim C2. The total monthly savings of a scan result are the sum of the monthly costs
  of exactly the candidates of the result, the annual savings are twelve times that, and
  every candidate of the result passed the detector's inclusion filter.
\<close>

theorem scan_result_savings_are_sums:
  assumes "scan_subscriptions az det ids = Returns res"
  shows "total_monthly_savings res
           = sum_list (map (\<lambda>r. current_monthly_cost (cost_analysis r)) (orphaned_resources res))
         \<and> total_annual_savings res = total_monthly_savings res * 12
         \<and> (\<forall>r \<in> set (orphaned_resources res). should_include_resource (det_config det) r)"
proof -
  have "should_include_resource (det_config det) r" if "r \<in> set (orphaned_resources res)" for r
  proof -
    from scan_result_member[OF assms that] obtain sub rs where
      "scan_single_subscription az det sub = Inr rs" "r \<in> set rs"
      by blast
    from scan_single_member[OF this] show ?thesis
      by (auto simp: enrich_should_include)
  qed
  with scan_subscriptions_returns[OF assms] show ?thesis
    by blast
qed

theorem scan_result_savings_are_sums_witness:
  "scan_subscriptions example_azure example_detector (Some [''sub-b'', ''sub-c''])
     = Returns example_result_bc
   \<and> total_monthly_savings example_result_bc = 60 + 4 + 60
   \<and> total_annual_savings example_result_bc = 124 * 12
   \<and> should_include_resource (det_config example_detector)
        (example_pip_candidate ''sub-b'' (Some ''sub-b...''))"
proof -
  have m: "example_pip_candidate ''sub-b'' (Some ''sub-b...'')
             \<in> set (orphaned_resources example_result_bc)"
    by (simp add: example_result_bc_def)
  from scan_result_savings_are_sums[OF example_scan_bc] m
  have "should_include_resource (det_config example_detector)
          (example_pip_candidate ''sub-b'' (Some ''sub-b...''))"
    by blast
  moreover have "total_monthly_savings example_result_bc = 60 + 4 + 60"
    using scan_result_savings_are_sums[OF example_scan_bc]
    by (simp add: example_result_bc_def)
  moreover have "total_annual_savings example_result_bc = 124 * 12"
    by (simp add: example_result_bc_def)
  ultimately show ?thesis
    using example_scan_bc by simp
qed

text \<open>
  Claim C3. With a backup risk level \<open>high\<close> and a cost-based severity below HIGH, the
  enhanced severity is to be HIGH. The code compares the string values of the enum
  members, and of the five values only \<open>critical\<close> is smaller than \<open>high\<close>: a MEDIUM
  base severity (monthly cost 20) is left MEDIUM, where the wording of the specification
  gives HIGH, and a CRITICAL base severity (monthly cost 150) is lowered to HIGH.
\<close>

theorem enhanced_severity_high_risk_not_raised:
  "disk_determine_severity (cost_of 20) default_configuration = MEDIUM
   \<and> disk_determine_enhanced_severity (cost_of 20) None (Some (backup_with_risk ''high''))
        default_configuration = MEDIUM
   \<and> spec_enhanced_severity (disk_determine_severity (cost_of 20) default_configuration) None
        (Some (backup_with_risk ''high'')) = HIGH
   \<and> disk_determine_severity (cost_of 150) default_configuration = CRITICAL
   \<and> disk_determine_enhanced_severity (cost_of 150) None (Some (backup_with_risk ''high''))
        default_configuration = HIGH"
  by (simp add: disk_determine_enhanced_severity_def disk_determine_severity_def cost_of_def
      default_configuration_def default_backup_analysis_def backup_with_risk_def
      spec_enhanced_severity_def)

text \<open>
  Claim C4. The full list of a scan result is claimed to be sorted by cleanup priority
  ascending, then monthly cost descending. The sort is made per subscription, before the
  lists are concatenated: the scan of \<open>sub-b\<close> and \<open>sub-c\<close> returns the priorities
  1, 4, 1.
\<close>

theorem multi_subscription_result_not_sorted:
  "scan_subscriptions example_azure example_detector (Some [''sub-b'', ''sub-c''])
     = Returns example_result_bc
   \<and> map cleanup_priority (orphaned_resources example_result_bc) = [1, 4, 1]
   \<and> \<not> sorted_wrt priority_order (orphaned_resources example_result_bc)"
  using example_scan_bc
  by (simp add: example_result_bc_def priority_order_def example_candidate_costs)

text \<open>
  Claim C4, amended. The list of a scan result is the concatenation, in the order of the
  subscriptions scanned, of the candidates of each subscription; the candidates of each
  subscription are sorted by cleanup priority ascending, then monthly cost descending;
  the full list is sorted when one subscription is scanned.
\<close>

theorem scan_result_sorted_per_subscription:
  assumes "scan_subscriptions az det (Some subs) = Returns res" and "subs \<noteq> []"
  shows "orphaned_resources res = concat (map (\<lambda>s. fst (scan_subscription az det s [])) subs)
         \<and> (\<forall>s \<in> set subs. sorted_wrt priority_order (fst (scan_subscription az det s [])))
         \<and> (length subs = 1 \<longrightarrow> sorted_wrt priority_order (orphaned_resources res))"
proof -
  from scan_subscriptions_returns[OF assms(1)] assms(2)
  have eq: "orphaned_resources res = concat (map (\<lambda>s. fst (scan_subscription az det s [])) subs)"
    by (auto simp: select_subscriptions_given)
  have "sorted_wrt priority_order (orphaned_resources res)" if "length subs = 1"
  proof -
    from that obtain s where "subs = [s]"
      by (cases subs) auto
    with eq scan_subscription_sorted show ?thesis
      by simp
  qed
  with eq scan_subscription_sorted show ?thesis
    by blast
qed

theorem scan_result_sorted_per_subscription_witness:
  "scan_subscriptions example_azure example_detector (Some [''sub-b'']) = Returns example_result_b
   \<and> [''sub-b''] \<noteq> [] \<and> length [''sub-b''] = 1
   \<and> orphaned_resources example_result_b
        = fst (scan_subscription example_azure example_detector ''sub-b'' [])
   \<and> sorted_wrt priority_order (orphaned_resources example_result_b)"
  using scan_result_sorted_per_subscription[OF example_scan_b] example_scan_b
  by simp

text \<open>
  Claim C5. Changing the backup risk level from \<open>low\<close> to \<open>critical\<close> is claimed never
  to give a larger cleanup priority number. For the example disk (a hundred days old,
  monthly cost 60, no recent activity) the priority is 1 at \<open>low\<close> and 2 at \<open>critical\<close>:
  the critical level forces the confidence to 0.1, which adds one, and the severity
  CRITICAL takes off two, where at \<open>low\<close> the severity HIGH takes off one and the
  confidence 1.0 another one.
\<close>

theorem critical_risk_raises_priority_number:
  "enhanced_cleanup_priority 0 (example_disk ''disk-keep'' idle_usage ''low'') (cost_of 60)
     (Some idle_usage) (Some (default_backup_analysis\<lparr>risk_level := ''low''\<rparr>))
     default_configuration = 1
   \<and> enhanced_cleanup_priority 0 (example_disk ''disk-keep'' idle_usage ''low'') (cost_of 60)
       (Some idle_usage) (Some (default_backup_analysis\<lparr>risk_level := ''critical''\<rparr>))
       default_configuration = 2"
  by (simp add: enhanced_cleanup_priority_def disk_calculate_cleanup_priority_def
      disk_determine_enhanced_severity_def disk_determine_severity_def
      disk_calculate_enhanced_confidence_score_def disk_calculate_confidence_score_def
      cost_of_def default_backup_analysis_def default_configuration_def
      example_disk_def idle_usage_def timedelta_days_def microseconds_per_day_def)

text \<open>
  Claim C5, amended. Changing the backup risk level from \<open>low\<close> to \<open>critical\<close>, all else
  fixed, raises the cleanup priority number by at most two, and does not raise it when
  the enhanced severity at \<open>low\<close> is MEDIUM, LOW or INFO.
\<close>

theorem critical_risk_priority_bound:
  "enhanced_cleanup_priority now res cost usage (Some (b\<lparr>risk_level := ''critical''\<rparr>)) config
     \<le> enhanced_cleanup_priority now res cost usage (Some (b\<lparr>risk_level := ''low''\<rparr>)) config + 2
   \<and> (disk_determine_enhanced_severity cost usage (Some (b\<lparr>risk_level := ''low''\<rparr>)) config
         \<in> {MEDIUM, LOW, INFO} \<longrightarrow>
       enhanced_cleanup_priority now res cost usage (Some (b\<lparr>risk_level := ''critical''\<rparr>)) config
         \<le> enhanced_cleanup_priority now res cost usage (Some (b\<lparr>risk_level := ''low''\<rparr>)) config)"
proof -
  let ?sl = "disk_determine_enhanced_severity cost usage (Some (b\<lparr>risk_level := ''low''\<rparr>)) config"
  have "?sl \<in> {MEDIUM, LOW, INFO} \<Longrightarrow> 0 \<le> severity_adjustments ?sl"
    by auto
  then show ?thesis
    unfolding enhanced_cleanup_priority_def enhanced_severity_critical
      enhanced_confidence_critical
    using priority_critical_le_plus2 priority_critical_le by blast
qed

theorem critical_risk_priority_bound_witness:
  "disk_determine_enhanced_severity (cost_of 20) (Some idle_usage)
     (Some (default_backup_analysis\<lparr>risk_level := ''low''\<rparr>)) default_configuration
     \<in> {MEDIUM, LOW, INFO}
   \<and> enhanced_cleanup_priority 0 (example_disk ''disk-keep'' idle_usage ''low'') (cost_of 20)
       (Some idle_usage) (Some (default_backup_analysis\<lparr>risk_level := ''critical''\<rparr>))
       default_configuration
     \<le> enhanced_cleanup_priority 0 (example_disk ''disk-keep'' idle_usage ''low'') (cost_of 20)
         (Some idle_usage) (Some (default_backup_analysis\<lparr>risk_level := ''low''\<rparr>))
         default_configuration"
proof -
  have s: "disk_determine_enhanced_severity (cost_of 20) (Some idle_usage)
     (Some (default_backup_analysis\<lparr>risk_level := ''low''\<rparr>)) default_configuration
     \<in> {MEDIUM, LOW, INFO}"
    by (simp add: disk_determine_enhanced_severity_def disk_determine_severity_def cost_of_def
        default_backup_analysis_def default_configuration_def idle_usage_def)
  with critical_risk_priority_bound[of 0 "example_disk ''disk-keep'' idle_usage ''low''"
      "cost_of 20" "Some idle_usage" default_backup_analysis default_configuration]
  show ?thesis
    by blast
qed

text \<open>
  Claim C6. Every candidate returned by the disk analyzer (disks and snapshots), the
  public IP analyzer or the storage account analyzer has a confidence between 0 and 1
  and a cleanup priority between 1 and 10.
\<close>

theorem analyzer_candidates_in_range:
  assumes "r \<in> set (run_analyzer a now sub clients config)"
  shows "0 \<le> confidence_score r \<and> confidence_score r \<le> 1
         \<and> 1 \<le> cleanup_priority r \<and> cleanup_priority r \<le> 10"
proof (cases a)
  case DiskAnalyzer
  with assms have "r \<in> set (disk_analyze now sub clients config)"
    by (simp add: run_analyzer_def)
  from disk_analyze_member[OF this] show ?thesis
    by blast
next
  case PublicIPAnalyzer
  with assms have "r \<in> set (pip_analyze sub clients config)"
    by (simp add: run_analyzer_def)
  from pip_analyze_member[OF this] show ?thesis
    by blast
next
  case StorageAccountAnalyzer
  with assms have "r \<in> set (storage_analyze now sub clients config)"
    by (simp add: run_analyzer_def)
  from storage_analyze_member[OF this] show ?thesis
    by blast
qed

theorem analyzer_candidates_in_range_witness:
  "example_disk_candidate ''sub-b'' None
     \<in> set (run_analyzer DiskAnalyzer 0 ''sub-b'' example_clients_b default_configuration)
   \<and> 0 \<le> confidence_score (example_disk_candidate ''sub-b'' None)
   \<and> confidence_score (example_disk_candidate ''sub-b'' None) \<le> 1
   \<and> 1 \<le> cleanup_priority (example_disk_candidate ''sub-b'' None)
   \<and> cleanup_priority (example_disk_candidate ''sub-b'' None) \<le> 10"
proof -
  have m: "example_disk_candidate ''sub-b'' None
     \<in> set (run_analyzer DiskAnalyzer 0 ''sub-b'' example_clients_b default_configuration)"
    by (simp add: run_analyzer_def example_disk_analyze_b)
  from analyzer_candidates_in_range[OF m] m show ?thesis
    by blast
qed

text \<open>
  Claim C7. The cleanup priority is claimed to follow one formula in every analyzer, with
  the cost reduction 3, 2, 1 above 100, 50, 10. The public IP analyzer has no tier above
  100 and the storage analyzer none above 10: at monthly cost 150, severity MEDIUM and
  confidence 0.6 the public IP analyzer gives 3 where the formula gives 2, and at monthly
  cost 20 the storage analyzer gives 6 where the formula gives 5.
\<close>

theorem cleanup_priority_differs_from_formula:
  "pip_calculate_cleanup_priority (cost_of 150) MEDIUM 0.6 = 3
   \<and> spec_cleanup_priority PublicIPAnalyzer (cost_of 150) MEDIUM 0.6 = 2
   \<and> storage_calculate_cleanup_priority (cost_of 20) MEDIUM 0.6 = 6
   \<and> spec_cleanup_priority StorageAccountAnalyzer (cost_of 20) MEDIUM 0.6 = 5"
  by (simp add: pip_calculate_cleanup_priority_def storage_calculate_cleanup_priority_def
      spec_cleanup_priority_def cleanup_priority_formula_def spec_cost_reduction_def cost_of_def)

text \<open>
  Claim C7, amended. The cleanup priority is the baseline (5 for disks and public IPs, 6
  for storage accounts), less the cost reduction of the analyzer (disks: 3, 2, 1 above
  100, 50, 10; public IPs: 2, 1 above 50, 10; storage accounts: 2, 1 above 100, 50), plus
  the severity adjustment, less 1 for a confidence above 0.8 or plus 1 for a confidence
  below 0.5 (plus 2 below 0.4 for storage accounts), clamped between the floor (1, and 2
  for storage accounts) and 10. For disks this is the formula of the specification.
\<close>

theorem cleanup_priority_per_analyzer:
  "disk_calculate_cleanup_priority cost sev conf
     = cleanup_priority_formula 5 1 0.5 1
         (if current_monthly_cost cost > 100 then 3
          else if current_monthly_cost cost > 50 then 2
          else if current_monthly_cost cost > 10 then 1 else 0) sev conf
   \<and> disk_calculate_cleanup_priority cost sev conf
       = spec_cleanup_priority DiskAnalyzer cost sev conf
   \<and> pip_calculate_cleanup_priority cost sev conf
       = cleanup_priority_formula 5 1 0.5 1
           (if current_monthly_cost cost > 50 then 2
            else if current_monthly_cost cost > 10 then 1 else 0) sev conf
   \<and> storage_calculate_cleanup_priority cost sev conf
       = cleanup_priority_formula 6 2 0.4 2
           (if current_monthly_cost cost > 100 then 2
            else if current_monthly_cost cost > 50 then 1 else 0) sev conf"
  by (intro conjI)
     (rule disk_priority_formula disk_priority_spec pip_priority_formula
        storage_priority_formula)+

theorem cleanup_priority_per_analyzer_witness:
  "disk_calculate_cleanup_priority (cost_of 60) HIGH 0.9 = 1
   \<and> cleanup_priority_formula 5 1 0.5 1 2 HIGH 0.9 = 1
   \<and> pip_calculate_cleanup_priority (cost_of 150) MEDIUM 0.6 = 3
   \<and> storage_calculate_cleanup_priority (cost_of 150) CRITICAL 0.9 = 2"
  using cleanup_priority_per_analyzer[of "cost_of 60" HIGH "0.9"]
    cleanup_priority_per_analyzer[of "cost_of 150" MEDIUM "0.6"]
    cleanup_priority_per_analyzer[of "cost_of 150" CRITICAL "0.9"]
  by (simp add: cleanup_priority_formula_def cost_of_def)

text \<open>
  Claim C8. When the scan of subscription \<open>A\<close> raises, among the subscriptions given,
  the scan returns a result: its candidates are those of the other subscriptions, in
  order, and its errors are those of the subscriptions before \<open>A\<close>, one entry naming
  \<open>A\<close> with the text of the exception, and those of the subscriptions after \<open>A\<close>.
  The semaphore needs a positive number of workers for any task to run.
\<close>

theorem failed_subscription_is_isolated:
  assumes "0 < parallel_workers (det_config det)"
    and "scan_single_subscription az det A = Inl e"
  shows "\<exists>res. scan_subscriptions az det (Some (pre @ A # post)) = Returns res
      \<and> orphaned_resources res
          = concat (map (\<lambda>s. fst (scan_subscription az det s [])) (pre @ post))
      \<and> errors res = concat (map (\<lambda>s. snd (scan_subscription az det s [])) pre)
                       @ [''Subscription '' @ A @ '': '' @ e]
                       @ concat (map (\<lambda>s. snd (scan_subscription az det s [])) post)"
proof -
  have A: "scan_subscription az det A [] = ([], [''Subscription '' @ A @ '': '' @ e])"
    using assms(2) by (simp add: scan_subscription_def)
  show ?thesis
    using assms(1)
    by (simp add: scan_subscriptions_def select_subscriptions_def Let_def gather_tasks_eq A)
qed

theorem failed_subscription_is_isolated_witness:
  "0 < parallel_workers (det_config example_detector)
   \<and> scan_single_subscription example_azure example_detector ''sub-a'' = Inl ''access denied''
   \<and> scan_subscriptions example_azure example_detector (Some ([] @ ''sub-a'' # [''sub-b'']))
       = Returns example_result_ab
   \<and> orphaned_resources example_result_ab
       = fst (scan_subscription example_azure example_detector ''sub-b'' [])
   \<and> errors example_result_ab = [''Subscription sub-a: access denied'']"
proof -
  have w: "0 < parallel_workers (det_config example_detector)"
    by (simp add: example_detector_fields)
  from failed_subscription_is_isolated[OF w example_single_a, of "[]" "[''sub-b'']"]
    example_scan_ab example_single_a example_single_b w
  show ?thesis
    by (auto simp: scan_subscription_def)
qed

text \<open>
  Claim C9. Every candidate returned by the public IP analyzer has severity HIGH: the
  list of security risks it passes to the severity function is never empty.
\<close>

theorem public_ip_candidates_are_high:
  assumes "r \<in> set (pip_analyze sub clients config)"
  shows "severity r = HIGH"
  using pip_analyze_member[OF assms] by blast

theorem public_ip_candidates_are_high_witness:
  "example_pip_candidate ''sub-b'' None
     \<in> set (pip_analyze ''sub-b'' example_clients_b default_configuration)
   \<and> severity (example_pip_candidate ''sub-b'' None) = HIGH"
proof -
  have m: "example_pip_candidate ''sub-b'' None
     \<in> set (pip_analyze ''sub-b'' example_clients_b default_configuration)"
    by (simp add: example_pip_analyze_b)
  from public_ip_candidates_are_high[OF m] m show ?thesis
    by blast
qed

text \<open>
  Claim C10. No candidate returned by the disk analyzer has a usage analysis with recent
  activity and an activity score above 0.3.
\<close>

theorem disk_analyzer_excludes_active:
  assumes "r \<in> set (disk_analyze now sub clients config)"
    and "usage_analysis r = Some u"
  shows "\<not> (has_recent_activity u \<and> activity_score u > 0.3)"
  using disk_analyze_member[OF assms(1)] assms(2) disk_include_not_active by blast

theorem disk_analyzer_excludes_active_witness:
  "example_disk_candidate ''sub-b'' None
     \<in> set (disk_analyze 0 ''sub-b'' example_clients_b default_configuration)
   \<and> usage_analysis (example_disk_candidate ''sub-b'' None) = Some idle_usage
   \<and> \<not> (has_recent_activity idle_usage \<and> activity_score idle_usage > 0.3)"
proof -
  have m: "example_disk_candidate ''sub-b'' None
     \<in> set (disk_analyze 0 ''sub-b'' example_clients_b default_configuration)"
    by (simp add: example_disk_analyze_b)
  have u: "usage_analysis (example_disk_candidate ''sub-b'' None) = Some idle_usage"
    by (simp add: example_disk_candidate_def)
  from disk_analyzer_excludes_active[OF m u] m u show ?thesis
    by blast
qed

end
